theory Spec2Isabelle
  imports Main
begin

section \<open>Data model\<close>

text \<open>
  \<^verbatim>\<open>class TokenType(str, Enum)\<close> of \<^verbatim>\<open>core/security.py\<close>. A member compares equal to
  its string value (\<open>TokenType_value\<close>); inside an f-string it is rendered as
  \<^verbatim>\<open>TokenType.NAME\<close> (\<open>TokenType_format\<close>; the module needs Python 3.11 for
  \<^verbatim>\<open>datetime.UTC\<close>, where the format of a mixed-in enum is its \<^verbatim>\<open>str()\<close>).
\<close>

datatype TokenType = ACCESS | REFRESH | RESET_PASSWORD | VERIFY_ACCOUNT

fun TokenType_value :: "TokenType \<Rightarrow> string" where
  "TokenType_value ACCESS = ''access''"
| "TokenType_value REFRESH = ''refresh''"
| "TokenType_value RESET_PASSWORD = ''reset_password''"
| "TokenType_value VERIFY_ACCOUNT = ''verify_account''"

fun TokenType_format :: "TokenType \<Rightarrow> string" where
  "TokenType_format ACCESS = ''TokenType.ACCESS''"
| "TokenType_format REFRESH = ''TokenType.REFRESH''"
| "TokenType_format RESET_PASSWORD = ''TokenType.RESET_PASSWORD''"
| "TokenType_format VERIFY_ACCOUNT = ''TokenType.VERIFY_ACCOUNT''"

text \<open>
  The exceptions of python-jose that \<^verbatim>\<open>jwt.decode\<close> raises for a string token; the last two
  are subclasses of \<^verbatim>\<open>JWTError\<close>, so \<^verbatim>\<open>except JWTError\<close> catches all three.
\<close>

datatype jwt_error = JWTError | ExpiredSignatureError | JWTClaimsError

text \<open>
  The exceptions \<^verbatim>\<open>datetime.fromtimestamp\<close> raises for a number it cannot turn into a local
  date: the year is outside 1 to 9999, the C library's \<^verbatim>\<open>localtime\<close> fails, or the number
  does not fit the platform's \<^verbatim>\<open>time_t\<close>.
\<close>

datatype datetime_error = ValueError | OSError | OverflowError

text \<open>
  Everything a handler can raise: the HTTP exceptions of
  \<^verbatim>\<open>core/exceptions/http_exceptions.py\<close> with their detail message, and the Python
  exceptions that escape a handler unhandled.
\<close>

datatype exn =
    UnauthorizedException string
  | BadRequestException string
  | NotFoundException string
  | DuplicateValueException string
  | ForbiddenException string
  | RateLimitException string
  | JWT jwt_error
  | Datetime datetime_error
  | TypeError
  | AttributeError

text \<open>
  The claims of a decoded token that the code reads with \<^verbatim>\<open>payload.get\<close>. \<open>sub\<close> is
  \<open>None\<close> when the claim is absent (python-jose refuses a \<^verbatim>\<open>sub\<close> that is not a string);
  \<open>token_type\<close> is \<open>None\<close> when the claim is absent or not a string (such a value is
  unequal to every \<open>TokenType\<close>); \<open>exp\<close> is \<open>None\<close> when the claim is absent or not a
  number (\<^verbatim>\<open>datetime.fromtimestamp\<close> raises \<^verbatim>\<open>TypeError\<close> on it), and the whole seconds
  of a number otherwise (the tokens this module issues carry whole seconds).
\<close>

record payload =
  sub :: "string option"
  token_type :: "string option"
  exp :: "int option"

record TokenData =
  username_or_email :: string

text \<open>
  \<^verbatim>\<open>UserBase\<close> is the base of the request and read schemas of \<^verbatim>\<open>schemas/auth.py\<close>; the row
  of the user table carries the same three fields and the columns the handlers read
  (\<open>user_id\<close> is the column \<^verbatim>\<open>id\<close>). The \<^verbatim>\<open>exp\<close> claim, the clock of the JWT codec and
  \<open>last_login\<close> are in whole seconds since the epoch.
\<close>

record UserBase =
  name :: string
  username :: string
  email :: string

record AuthUserCreate = UserBase +
  password :: string

record user = UserBase +
  user_id :: int
  hashed_password :: string
  is_active :: bool
  is_superuser :: bool
  tier_id :: "int option"
  is_deleted :: bool
  last_login :: "int option"

text \<open>A tier (\<open>tier_pk\<close> is its column \<^verbatim>\<open>id\<close>) and a rate-limit rule of a tier.\<close>

record tier =
  tier_pk :: int
  tier_name :: string

record rate_limit =
  rl_tier_id :: int
  path :: string
  limit :: int
  period :: int

text \<open>A job handed to \<^verbatim>\<open>redis_queue.enqueue\<close>, or a task given to \<^verbatim>\<open>background_tasks.add_task\<close>.\<close>

record job =
  function_name :: string
  kwargs :: "(string \<times> string) list"

text \<open>
  The Redis cache: a key holds a value and, when it was set with \<^verbatim>\<open>EX\<close>, the instant at
  which it expires, in milliseconds of the server's clock.
\<close>

type_synonym redis = "string \<rightharpoonup> (string \<times> int option)"

text \<open>
  The shared state of the handlers: the tables of the database session, the Redis cache
  of \<^verbatim>\<open>redis_storage\<close>, the jobs enqueued on \<^verbatim>\<open>redis_queue\<close> and the background tasks
  scheduled on the response.
\<close>

record state =
  users :: "user list"
  token_blacklist :: "(string \<times> int) list"
  tiers :: "tier list"
  rate_limits :: "rate_limit list"
  redis_cache :: redis
  queue_jobs :: "job list"
  background_tasks :: "job list"

text \<open>
  What the module takes from its libraries and its settings: the JWT codec of python-jose
  under \<^verbatim>\<open>SECRET_KEY\<close> and \<^verbatim>\<open>ALGORITHM\<close> (decoding depends on the clock, for the expiry),
  the numbers \<^verbatim>\<open>datetime.fromtimestamp\<close> refuses on the platform and what it raises for
  them (\<open>None\<close> for a number it accepts), bcrypt, \<^verbatim>\<open>sanitize_path\<close> of
  \<^verbatim>\<open>schemas/rate_limit.py\<close>, and the constants of \<^verbatim>\<open>settings\<close>.
\<close>

record env =
  jwt_decode :: "int \<Rightarrow> string \<Rightarrow> jwt_error + payload"
  jwt_encode :: "payload \<Rightarrow> string"
  fromtimestamp_error :: "int \<Rightarrow> datetime_error option"
  checkpw :: "string \<Rightarrow> string \<Rightarrow> bool"
  hashpw :: "string \<Rightarrow> string \<Rightarrow> string"
  sanitize_path :: "string \<Rightarrow> string"
  ACCESS_TOKEN_EXPIRE_MINUTES :: int
  REFRESH_TOKEN_EXPIRE_DAYS :: int
  DEFAULT_LIMIT :: int
  DEFAULT_PERIOD :: int

text \<open>A handler's JSON object \<^verbatim>\<open>dict[str, str]\<close>, in the order of the literal.\<close>

type_synonym response = "(string \<times> string) list"

section \<open>The stores\<close>

subsection \<open>Credential store and token blacklist\<close>

text \<open>
  Modelled from the spec: the FastCRUD objects \<^verbatim>\<open>crud_users\<close>, \<^verbatim>\<open>crud_token_blacklist\<close>,
  \<^verbatim>\<open>crud_tiers\<close> and \<^verbatim>\<open>crud_rate_limits\<close> are not among the source files. Following
  sections 3, 4.4 and 6 of the specification, \<^verbatim>\<open>get\<close> returns the first row that matches
  the keyword filters, \<^verbatim>\<open>exists\<close> tells whether a row matches, \<^verbatim>\<open>create\<close> adds a row (with
  the column defaults and a fresh \<^verbatim>\<open>id\<close>) and commits it, and \<^verbatim>\<open>update\<close> changes the fields
  of the matching rows. A filter is the predicate its keywords stand for.
\<close>

definition crud_users_get :: "(user \<Rightarrow> bool) \<Rightarrow> state \<Rightarrow> user option" where
  "crud_users_get flt s = List.find flt (users s)"

definition crud_users_exists :: "(user \<Rightarrow> bool) \<Rightarrow> state \<Rightarrow> bool" where
  "crud_users_exists flt s = list_ex flt (users s)"

definition next_id :: "user list \<Rightarrow> int" where
  "next_id us = fold max (map user_id us) 0 + 1"

definition crud_users_create ::
  "string \<Rightarrow> string \<Rightarrow> string \<Rightarrow> string \<Rightarrow> bool \<Rightarrow> bool \<Rightarrow> int option \<Rightarrow> state \<Rightarrow> user \<times> state" where
  "crud_users_create n un em hp su act ll s =
     (let row = \<lparr>name = n, username = un, email = em, user_id = next_id (users s),
                 hashed_password = hp, is_active = act, is_superuser = su,
                 tier_id = None, is_deleted = False, last_login = ll\<rparr>
      in (row, s\<lparr>users := users s @ [row]\<rparr>))"

definition crud_users_update :: "(user \<Rightarrow> user) \<Rightarrow> (user \<Rightarrow> bool) \<Rightarrow> state \<Rightarrow> state" where
  "crud_users_update upd flt s =
     s\<lparr>users := map (\<lambda>u. if flt u then upd u else u) (users s)\<rparr>"

definition crud_token_blacklist_exists :: "string \<Rightarrow> state \<Rightarrow> bool" where
  "crud_token_blacklist_exists token s = list_ex (\<lambda>e. fst e = token) (token_blacklist s)"

definition crud_token_blacklist_create :: "string \<Rightarrow> int \<Rightarrow> state \<Rightarrow> state" where
  "crud_token_blacklist_create token expires_at s =
     s\<lparr>token_blacklist := token_blacklist s @ [(token, expires_at)]\<rparr>"

definition crud_tiers_get :: "int option \<Rightarrow> state \<Rightarrow> tier option" where
  "crud_tiers_get i s = List.find (\<lambda>t. Some (tier_pk t) = i) (tiers s)"

definition crud_rate_limits_get :: "int \<Rightarrow> string \<Rightarrow> state \<Rightarrow> rate_limit option" where
  "crud_rate_limits_get t p s = List.find (\<lambda>r. rl_tier_id r = t \<and> path r = p) (rate_limits s)"

subsection \<open>The Redis client and \<^verbatim>\<open>RedisStorage\<close>\<close>

text \<open>
  The commands of the Redis server that \<^verbatim>\<open>RedisStorage\<close> sends, at the instant \<open>now\<close> of
  the server's clock, in milliseconds: a key whose expiry has been reached is gone;
  \<^verbatim>\<open>SET key value EX n\<close> sets the expiry \<open>n\<close> seconds after \<open>now\<close>, and is refused with an
  error reply unless \<open>n\<close> is positive and that instant, in milliseconds, is positive and
  fits a signed 64-bit integer; \<^verbatim>\<open>GETDEL\<close> reads and removes the key in one command. Failures of the
  connection are outside the model.
\<close>

definition LLONG_MAX :: int where
  "LLONG_MAX = 9223372036854775807"

definition redis_lookup :: "redis \<Rightarrow> int \<Rightarrow> string \<Rightarrow> string option" where
  "redis_lookup r now k =
     (case r k of
        None \<Rightarrow> None
      | Some (v, None) \<Rightarrow> Some v
      | Some (v, Some e) \<Rightarrow> if now < e then Some v else None)"

definition client_set :: "redis \<Rightarrow> int \<Rightarrow> string \<Rightarrow> string \<Rightarrow> int option \<Rightarrow> redis option" where
  "client_set r now k v ex =
     (case ex of
        None \<Rightarrow> Some (r(k \<mapsto> (v, None)))
      | Some n \<Rightarrow>
          if n \<le> 0 \<or> LLONG_MAX div 1000 < n \<or> now + n * 1000 \<le> 0 \<or> LLONG_MAX < now + n * 1000
          then None
          else Some (r(k \<mapsto> (v, Some (now + n * 1000)))))"

definition client_get :: "redis \<Rightarrow> int \<Rightarrow> string \<Rightarrow> string option" where
  "client_get r now k = redis_lookup r now k"

definition client_getdel :: "redis \<Rightarrow> int \<Rightarrow> string \<Rightarrow> string option \<times> redis" where
  "client_getdel r now k = (redis_lookup r now k, r(k := None))"

text \<open>
  \<^verbatim>\<open>RedisStorage.set\<close> and \<^verbatim>\<open>RedisStorage.get\<close> of \<^verbatim>\<open>core/utils/redis_storage.py\<close>: an
  exception of the client is logged and turned into \<^verbatim>\<open>False\<close> or \<^verbatim>\<open>None\<close>.
\<close>

definition RedisStorage_set ::
  "redis \<Rightarrow> int \<Rightarrow> string \<Rightarrow> string \<Rightarrow> int option \<Rightarrow> bool \<times> redis" where
  "RedisStorage_set r now key val expire =
     (case client_set r now key val expire of
        Some r' \<Rightarrow> (True, r')
      | None \<Rightarrow> (False, r))"

definition RedisStorage_get :: "redis \<Rightarrow> int \<Rightarrow> string \<Rightarrow> bool \<Rightarrow> string option \<times> redis" where
  "RedisStorage_get r now key delete =
     (if delete then client_getdel r now key else (client_get r now key, r))"

text \<open>\<^verbatim>\<open>redis_queue.enqueue\<close> of \<^verbatim>\<open>core/utils/queue.py\<close>: the job joins the queue.\<close>

definition enqueue :: "string \<Rightarrow> (string \<times> string) list \<Rightarrow> state \<Rightarrow> state" where
  "enqueue fn kw s = s\<lparr>queue_jobs := queue_jobs s @ [\<lparr>function_name = fn, kwargs = kw\<rparr>]\<rparr>"

definition add_task :: "string \<Rightarrow> (string \<times> string) list \<Rightarrow> state \<Rightarrow> state" where
  "add_task fn kw s =
     s\<lparr>background_tasks := background_tasks s @ [\<lparr>function_name = fn, kwargs = kw\<rparr>]\<rparr>"

section \<open>\<^verbatim>\<open>core/security.py\<close>\<close>

definition RESET_PASSWORD_EXPIRE_MINUTES :: int where
  "RESET_PASSWORD_EXPIRE_MINUTES = 30"

definition VERIFY_ACCOUNT_EXPIRE_DAYS :: int where
  "VERIFY_ACCOUNT_EXPIRE_DAYS = 7"

definition verify_password :: "env \<Rightarrow> string \<Rightarrow> string \<Rightarrow> bool" where
  "verify_password env plain_password hashed = checkpw env plain_password hashed"

text \<open>\<open>salt\<close> is the value \<^verbatim>\<open>bcrypt.gensalt()\<close> draws.\<close>

definition get_password_hash :: "env \<Rightarrow> string \<Rightarrow> string \<Rightarrow> string" where
  "get_password_hash env salt pw = hashpw env pw salt"

definition token_key :: "TokenType \<Rightarrow> string \<Rightarrow> string" where
  "token_key ty token = TokenType_format ty @ '':'' @ token"

text \<open>
  Python's \<^verbatim>\<open>int\<close> of a difference of two \<^verbatim>\<open>timestamp()\<close> values, the difference given in
  microseconds (the resolution of \<^verbatim>\<open>datetime\<close>): the whole seconds, rounded towards zero.
\<close>

definition int_seconds :: "int \<Rightarrow> int" where
  "int_seconds us = (if 0 \<le> us then us div 1000000 else - ((- us) div 1000000))"

text \<open>
  \<open>uuid\<close> is the value \<^verbatim>\<open>uuid.uuid4()\<close> draws. \<open>now\<close> and \<open>now'\<close> are the two readings
  of \<^verbatim>\<open>datetime.now(UTC)\<close>, in microseconds: the first fixes \<^verbatim>\<open>expires\<close>, the second is
  subtracted from it. \<open>rnow\<close> is the clock of the Redis server, in milliseconds, when the
  key is set. The result of \<^verbatim>\<open>redis_storage.set\<close> is dropped, as in the source.
\<close>

definition create_verification_token ::
  "string \<Rightarrow> int \<Rightarrow> int \<Rightarrow> int \<Rightarrow> string \<Rightarrow> TokenType \<Rightarrow> state \<Rightarrow> string \<times> state" where
  "create_verification_token uuid now now' rnow em ty s =
     (let token = uuid;
          expires = (if ty = RESET_PASSWORD
                     then now + RESET_PASSWORD_EXPIRE_MINUTES * 60 * 1000000
                     else now + VERIFY_ACCOUNT_EXPIRE_DAYS * 86400 * 1000000);
          key = token_key ty token;
          expire_seconds = int_seconds (expires - now');
          r' = snd (RedisStorage_set (redis_cache s) rnow key em (Some expire_seconds))
      in (token, s\<lparr>redis_cache := r'\<rparr>))"

text \<open>\<open>now\<close> is the clock of the Redis server, in milliseconds, when the key is read.\<close>

definition verify_token_from_redis ::
  "int \<Rightarrow> string \<Rightarrow> TokenType \<Rightarrow> state \<Rightarrow> string option \<times> state" where
  "verify_token_from_redis now token ty s =
     (let key = token_key ty token;
          got = RedisStorage_get (redis_cache s) now key True;
          s' = s\<lparr>redis_cache := snd got\<rparr>
      in (case fst got of
            Some em \<Rightarrow> if em \<noteq> [] then (Some em, s') else (None, s')
          | None \<Rightarrow> (None, s')))"

text \<open>\<^verbatim>\<open>False\<close> is \<open>None\<close>.\<close>

definition authenticate_user :: "env \<Rightarrow> string \<Rightarrow> string \<Rightarrow> state \<Rightarrow> user option" where
  "authenticate_user env uoe pw s =
     (let db_user =
            (if CHR ''@'' \<in> set uoe
             then crud_users_get (\<lambda>u. email u = uoe \<and> is_deleted u = False) s
             else crud_users_get (\<lambda>u. username u = uoe \<and> is_deleted u = False) s)
      in (case db_user of
            None \<Rightarrow> None
          | Some u \<Rightarrow> if \<not> verify_password env pw (hashed_password u) then None else Some u))"

text \<open>
  \<open>data\<close> is the value under \<^verbatim>\<open>"sub"\<close> of the dictionary every caller passes;
  \<open>expires_delta\<close> is in seconds, and a zero \<^verbatim>\<open>timedelta\<close> is falsy.
\<close>

definition create_access_token :: "env \<Rightarrow> int \<Rightarrow> string \<Rightarrow> int option \<Rightarrow> string" where
  "create_access_token env now data expires_delta =
     (let expire =
            (case expires_delta of
               Some d \<Rightarrow> if d \<noteq> 0 then now + d else now + ACCESS_TOKEN_EXPIRE_MINUTES env * 60
             | None \<Rightarrow> now + ACCESS_TOKEN_EXPIRE_MINUTES env * 60)
      in jwt_encode env
           \<lparr>sub = Some data, token_type = Some (TokenType_value ACCESS), exp = Some expire\<rparr>)"

definition create_refresh_token :: "env \<Rightarrow> int \<Rightarrow> string \<Rightarrow> int option \<Rightarrow> string" where
  "create_refresh_token env now data expires_delta =
     (let expire =
            (case expires_delta of
               Some d \<Rightarrow> if d \<noteq> 0 then now + d else now + REFRESH_TOKEN_EXPIRE_DAYS env * 86400
             | None \<Rightarrow> now + REFRESH_TOKEN_EXPIRE_DAYS env * 86400)
      in jwt_encode env
           \<lparr>sub = Some data, token_type = Some (TokenType_value REFRESH), exp = Some expire\<rparr>)"

definition verify_token :: "env \<Rightarrow> int \<Rightarrow> string \<Rightarrow> TokenType \<Rightarrow> state \<Rightarrow> TokenData option" where
  "verify_token env now token expected_token_type s =
     (if crud_token_blacklist_exists token s then None
      else (case jwt_decode env now token of
              Inl e \<Rightarrow> None
            | Inr p \<Rightarrow>
                if sub p = None \<or> token_type p \<noteq> Some (TokenType_value expected_token_type)
                then None
                else Some \<lparr>username_or_email = the (sub p)\<rparr>))"

text \<open>
  \<^verbatim>\<open>datetime.fromtimestamp\<close> on the \<^verbatim>\<open>exp\<close> claim: \<^verbatim>\<open>TypeError\<close> when it is no number, the
  platform's error when it refuses the number, else the instant itself.
\<close>

definition fromtimestamp :: "env \<Rightarrow> int option \<Rightarrow> exn + int" where
  "fromtimestamp env t =
     (case t of
        None \<Rightarrow> Inl TypeError
      | Some n \<Rightarrow>
          (case fromtimestamp_error env n of
             Some e \<Rightarrow> Inl (Datetime e)
           | None \<Rightarrow> Inr n))"

definition blacklist_token :: "env \<Rightarrow> int \<Rightarrow> string \<Rightarrow> state \<Rightarrow> (exn + unit) \<times> state" where
  "blacklist_token env now token s =
     (case jwt_decode env now token of
        Inl e \<Rightarrow> (Inl (JWT e), s)
      | Inr p \<Rightarrow>
          (case fromtimestamp env (exp p) of
             Inl e \<Rightarrow> (Inl e, s)
           | Inr expires_at \<Rightarrow> (Inr (), crud_token_blacklist_create token expires_at s)))"

text \<open>The loop of \<^verbatim>\<open>blacklist_tokens\<close> over the list of the two tokens.\<close>

fun blacklist_loop :: "env \<Rightarrow> int \<Rightarrow> string list \<Rightarrow> state \<Rightarrow> (exn + unit) \<times> state" where
  "blacklist_loop env now [] s = (Inr (), s)"
| "blacklist_loop env now (token # rest) s =
     (case jwt_decode env now token of
        Inl e \<Rightarrow> (Inl (JWT e), s)
      | Inr p \<Rightarrow>
          (case fromtimestamp env (exp p) of
             Inl e \<Rightarrow> (Inl e, s)
           | Inr expires_at \<Rightarrow>
               blacklist_loop env now rest (crud_token_blacklist_create token expires_at s)))"

definition blacklist_tokens ::
  "env \<Rightarrow> int \<Rightarrow> string \<Rightarrow> string \<Rightarrow> state \<Rightarrow> (exn + unit) \<times> state" where
  "blacklist_tokens env now access_token refresh_token s =
     blacklist_loop env now [access_token, refresh_token] s"

section \<open>\<^verbatim>\<open>api/v1/auth.py\<close>\<close>

text \<open>
  Each handler returns what it raises (\<open>Inl\<close>) or its JSON object (\<open>Inr\<close>), and the
  state it leaves. \<open>uuid\<close> and \<open>salt\<close> are the random values drawn. For the handlers
  that issue or check a JWT, \<open>now\<close> is the clock in whole seconds. For those that read a
  one-time code, \<open>now\<close> is the clock of the Redis server in milliseconds; those that make
  one take the three clock readings of \<^verbatim>\<open>create_verification_token\<close>.
\<close>

definition login_for_access_token ::
  "env \<Rightarrow> int \<Rightarrow> string \<Rightarrow> string \<Rightarrow> state \<Rightarrow> (exn + response) \<times> state" where
  "login_for_access_token env now form_username form_password s =
     (case authenticate_user env form_username form_password s of
        None \<Rightarrow> (Inl (UnauthorizedException ''Wrong username, email or password.''), s)
      | Some u \<Rightarrow>
          if \<not> is_active u
          then (Inl (UnauthorizedException
                  ''Account is not activated. Please verify your email first.''), s)
          else
            (let access_token_expires = ACCESS_TOKEN_EXPIRE_MINUTES env * 60;
                 access_token =
                   create_access_token env now (username u) (Some access_token_expires);
                 refresh_token = create_refresh_token env now (username u) None;
                 s' = crud_users_update (\<lambda>r. r\<lparr>last_login := Some now\<rparr>)
                        (\<lambda>r. user_id r = user_id u) s
             in (Inr [(''access_token'', access_token), (''token_type'', ''bearer''),
                      (''refresh_token'', refresh_token)], s')))"

definition refresh_access_token :: "env \<Rightarrow> int \<Rightarrow> string \<Rightarrow> state \<Rightarrow> exn + response" where
  "refresh_access_token env now refresh_token s =
     (if refresh_token = [] then Inl (UnauthorizedException ''Refresh token missing.'')
      else
        (case verify_token env now refresh_token REFRESH s of
           None \<Rightarrow> Inl (UnauthorizedException ''Invalid refresh token.'')
         | Some user_data \<Rightarrow>
             (case crud_users_get (\<lambda>u. username u = username_or_email user_data) s of
                None \<Rightarrow> Inl (UnauthorizedException ''User is not active.'')
              | Some u \<Rightarrow>
                  if \<not> is_active u then Inl (UnauthorizedException ''User is not active.'')
                  else
                    (let new_access_token =
                           create_access_token env now (username_or_email user_data) None;
                         new_refresh_token =
                           create_refresh_token env now (username_or_email user_data) None
                     in Inr [(''access_token'', new_access_token), (''token_type'', ''bearer''),
                             (''refresh_token'', new_refresh_token)]))))"

text \<open>
  \<^verbatim>\<open>except JWTError\<close> turns a decoding failure into \<^verbatim>\<open>UnauthorizedException\<close>; any other
  exception of \<^verbatim>\<open>blacklist_tokens\<close> leaves the handler as it is.
\<close>

definition logout :: "env \<Rightarrow> int \<Rightarrow> string \<Rightarrow> string \<Rightarrow> state \<Rightarrow> (exn + response) \<times> state" where
  "logout env now access_token refresh_token s =
     (if refresh_token = [] then (Inl (UnauthorizedException ''Refresh token not found''), s)
      else
        (case blacklist_tokens env now access_token refresh_token s of
           (Inl (JWT e), s') \<Rightarrow> (Inl (UnauthorizedException ''Invalid token.''), s')
         | (Inl e, s') \<Rightarrow> (Inl e, s')
         | (Inr u, s') \<Rightarrow> (Inr [(''message'', ''Logged out successfully'')], s')))"

definition register_user ::
  "env \<Rightarrow> int \<Rightarrow> int \<Rightarrow> int \<Rightarrow> string \<Rightarrow> string \<Rightarrow> AuthUserCreate \<Rightarrow> state
   \<Rightarrow> (exn + response) \<times> state" where
  "register_user env now now' rnow uuid salt user_in s =
     (if crud_users_exists (\<lambda>u. username u = username user_in) s
      then (Inl (BadRequestException ''Username already exists''), s)
      else if crud_users_exists (\<lambda>u. email u = email user_in) s
      then (Inl (BadRequestException ''Email already exists''), s)
      else
        (let hashed = get_password_hash env salt (password user_in);
             created = crud_users_create (name user_in) (username user_in) (email user_in)
                         hashed False False None s;
             usr = fst created;
             issued = create_verification_token uuid now now' rnow (email usr) VERIFY_ACCOUNT
                        (snd created);
             token = fst issued;
             s' = enqueue ''send_email''
                    [(''email'', email usr), (''name'', name usr), (''verification_code'', token)]
                    (snd issued)
         in (Inr [(''message'',
                   ''User registered successfully. Please check your email for verification.'')],
             s')))"

definition verify_account :: "int \<Rightarrow> string \<Rightarrow> state \<Rightarrow> (exn + response) \<times> state" where
  "verify_account now token s =
     (let checked = verify_token_from_redis now token VERIFY_ACCOUNT s;
          s1 = snd checked
      in (case fst checked of
            None \<Rightarrow> (Inl (BadRequestException ''Invalid or expired verification token''), s1)
          | Some em \<Rightarrow>
              (case crud_users_get (\<lambda>u. email u = em) s1 of
                 None \<Rightarrow> (Inl (NotFoundException ''User not found''), s1)
               | Some u \<Rightarrow>
                   if is_active u then (Inr [(''message'', ''Account already verified'')], s1)
                   else (Inr [(''message'', ''Account verified successfully'')],
                         crud_users_update (\<lambda>r. r\<lparr>is_active := True\<rparr>)
                           (\<lambda>r. user_id r = user_id u) s1))))"

definition request_password_reset ::
  "int \<Rightarrow> int \<Rightarrow> int \<Rightarrow> string \<Rightarrow> string \<Rightarrow> state \<Rightarrow> response \<times> state" where
  "request_password_reset now now' rnow uuid request_email s =
     (case crud_users_get (\<lambda>u. email u = request_email) s of
        None \<Rightarrow>
          ([(''message'',
             ''If your email is registered, you will receive password reset instructions'')], s)
      | Some u \<Rightarrow>
          (let issued = create_verification_token uuid now now' rnow (email u) RESET_PASSWORD s;
               token = fst issued;
               s' = add_task ''send_verification_email''
                      [(''email'', email u), (''name'', name u), (''verification_code'', token)]
                      (snd issued)
           in ([(''message'',
                 ''If your email is registered, you will receive password reset instructions'')],
               s')))"

definition reset_password ::
  "env \<Rightarrow> int \<Rightarrow> string \<Rightarrow> string \<Rightarrow> string \<Rightarrow> state \<Rightarrow> (exn + response) \<times> state" where
  "reset_password env now salt token new_password s =
     (let checked = verify_token_from_redis now token RESET_PASSWORD s;
          s1 = snd checked
      in (case fst checked of
            None \<Rightarrow> (Inl (BadRequestException ''Invalid or expired reset token''), s1)
          | Some em \<Rightarrow>
              (case crud_users_get (\<lambda>u. email u = em) s1 of
                 None \<Rightarrow> (Inl (NotFoundException ''User not found''), s1)
               | Some u \<Rightarrow>
                   (let hashed = get_password_hash env salt new_password
                    in (Inr [(''message'', ''Password reset successfully'')],
                        crud_users_update (\<lambda>r. r\<lparr>hashed_password := hashed\<rparr>)
                          (\<lambda>r. user_id r = user_id u) s1)))))"

section \<open>\<^verbatim>\<open>api/v1/users.py\<close>\<close>

text \<open>
  \<^verbatim>\<open>create_user\<close>, the superuser's endpoint. \<^verbatim>\<open>UserCreateInternal\<close> and the table's column
  defaults are not among the source files: \<open>act\<close> and \<open>su\<close> are the values a new row gets
  for \<^verbatim>\<open>is_active\<close> and \<^verbatim>\<open>is_superuser\<close>.
\<close>

definition create_user ::
  "env \<Rightarrow> string \<Rightarrow> bool \<Rightarrow> bool \<Rightarrow> AuthUserCreate \<Rightarrow> state \<Rightarrow> (exn + user) \<times> state" where
  "create_user env salt act su usr s =
     (if crud_users_exists (\<lambda>u. email u = email usr) s
      then (Inl (DuplicateValueException ''Email is already registered''), s)
      else if crud_users_exists (\<lambda>u. username u = username usr) s
      then (Inl (DuplicateValueException ''Username not available''), s)
      else
        (let hashed = get_password_hash env salt (password usr);
             created = crud_users_create (name usr) (username usr) (email usr)
                         hashed su act None s
         in (Inr (fst created), snd created)))"

text \<open>\<^verbatim>\<open>delete_user_me\<close>: the soft delete of the row, then the revocation of the token.\<close>

definition delete_user_me :: "env \<Rightarrow> int \<Rightarrow> user \<Rightarrow> string \<Rightarrow> state \<Rightarrow> (exn + response) \<times> state" where
  "delete_user_me env now current_user token s =
     (let s1 = crud_users_update (\<lambda>r. r\<lparr>is_deleted := True\<rparr>)
                 (\<lambda>r. username r = username current_user) s
      in (case blacklist_token env now token s1 of
            (Inl e, s2) \<Rightarrow> (Inl e, s2)
          | (Inr u, s2) \<Rightarrow> (Inr [(''message'', ''User deleted'')], s2)))"

section \<open>\<^verbatim>\<open>api/dependencies.py\<close>\<close>

definition get_current_user :: "env \<Rightarrow> int \<Rightarrow> string \<Rightarrow> state \<Rightarrow> exn + user" where
  "get_current_user env now token s =
     (case verify_token env now token ACCESS s of
        None \<Rightarrow> Inl (UnauthorizedException ''User not authenticated.'')
      | Some token_data \<Rightarrow>
          (let usr =
                 (if CHR ''@'' \<in> set (username_or_email token_data)
                  then crud_users_get
                         (\<lambda>u. email u = username_or_email token_data \<and> is_deleted u = False) s
                  else crud_users_get
                         (\<lambda>u. username u = username_or_email token_data \<and> is_deleted u = False) s)
           in (case usr of
                 None \<Rightarrow> Inl (UnauthorizedException ''User not found or has been deleted.'')
               | Some u \<Rightarrow>
                   if \<not> is_active u
                   then Inl (UnauthorizedException
                          ''Account is not activated. Please verify your email first.'')
                   else Inr u)))"

text \<open>
  What \<^verbatim>\<open>rate_limiter_dependency\<close> reads of the request: the path of its URL and the host
  of \<^verbatim>\<open>request.client\<close>, which Starlette leaves \<^verbatim>\<open>None\<close> when the server gives no peer
  address. The counter is keyed by the user's id or by that host.
\<close>

record request =
  url_path :: string
  client_host :: "string option"

datatype subject = UserId int | Host string

text \<open>
  \<open>is_rate_limited\<close> stands for \<^verbatim>\<open>rate_limiter.is_rate_limited\<close> of \<^verbatim>\<open>core/utils/rate_limit.py\<close>,
  which is not among the source files: its answer for the key, path, limit and period it
  is called with. The wait for the application's start-up event is not modelled.
\<close>

definition rate_limiter_dependency ::
  "env \<Rightarrow> (subject \<Rightarrow> string \<Rightarrow> int \<Rightarrow> int \<Rightarrow> bool) \<Rightarrow> request \<Rightarrow> user option \<Rightarrow> state
   \<Rightarrow> exn + unit" where
  "rate_limiter_dependency env is_rate_limited req usr s =
     (let path' = sanitize_path env (url_path req);
          resolved =
            (case usr of
               Some u \<Rightarrow>
                 (case crud_tiers_get (tier_id u) s of
                    Some t \<Rightarrow>
                      (case crud_rate_limits_get (tier_pk t) path' s of
                         Some rl \<Rightarrow> Inr (UserId (user_id u), limit rl, period rl)
                       | None \<Rightarrow> Inr (UserId (user_id u), DEFAULT_LIMIT env, DEFAULT_PERIOD env))
                  | None \<Rightarrow> Inr (UserId (user_id u), DEFAULT_LIMIT env, DEFAULT_PERIOD env))
             | None \<Rightarrow>
                 (case client_host req of
                    None \<Rightarrow> Inl AttributeError
                  | Some h \<Rightarrow> Inr (Host h, DEFAULT_LIMIT env, DEFAULT_PERIOD env)))
      in (case resolved of
            Inl e \<Rightarrow> Inl e
          | Inr (key, lim, per) \<Rightarrow>
              if is_rate_limited key path' lim per
              then Inl (RateLimitException ''Rate limit exceeded.'')
              else Inr ()))"

section \<open>A small instance\<close>

text \<open>
  A codec, settings and tables on which the theorems below are run. A token is the text
  of its claims, the expiry in decimal; the codec accepts the tokens signed so far
  (\<open>demo_issued\<close>: an access and a refresh token of \<^verbatim>\<open>alice\<close>, and the pair a refresh at
  the instant 1000 gives), refuses them once expired, and refuses every other string.
  \<^verbatim>\<open>fromtimestamp\<close> is that of CPython 3.11 on Linux with the local zone UTC. A password
  matches the hash that ends with it.
\<close>

fun decimal :: "nat \<Rightarrow> string" where
  "decimal n =
     (if n < 10 then [''0123456789'' ! n]
      else decimal (n div 10) @ [''0123456789'' ! (n mod 10)])"

declare decimal.simps [simp del]

definition demo_encode :: "payload \<Rightarrow> string" where
  "demo_encode p =
     (case token_type p of Some ty \<Rightarrow> ty | None \<Rightarrow> [])
       @ ''.'' @ (case sub p of Some n \<Rightarrow> n | None \<Rightarrow> [])
       @ ''.'' @ (case exp p of Some e \<Rightarrow> decimal (nat e) | None \<Rightarrow> [])"

definition demo_issued :: "payload list" where
  "demo_issued =
     [\<lparr>sub = Some ''alice'', token_type = Some ''access'', exp = Some 2000\<rparr>,
      \<lparr>sub = Some ''alice'', token_type = Some ''refresh'', exp = Some 9000\<rparr>,
      \<lparr>sub = Some ''alice'', token_type = Some ''access'', exp = Some 2800\<rparr>,
      \<lparr>sub = Some ''alice'', token_type = Some ''refresh'', exp = Some 605800\<rparr>]"

definition demo_decode :: "int \<Rightarrow> string \<Rightarrow> jwt_error + payload" where
  "demo_decode now token =
     (case List.find (\<lambda>p. demo_encode p = token) demo_issued of
        None \<Rightarrow> Inl JWTError
      | Some p \<Rightarrow>
          (case exp p of
             Some e \<Rightarrow> if e < now then Inl ExpiredSignatureError else Inr p
           | None \<Rightarrow> Inr p))"

definition demo_fromtimestamp_error :: "int \<Rightarrow> datetime_error option" where
  "demo_fromtimestamp_error n =
     (if n < - 9223372036854775808 \<or> 9223372036854775807 < n then Some OverflowError
      else if n < - 67768040609740800 \<or> 67768036191676799 < n then Some OSError
      else if n < - 62135510400 \<or> 253402300799 < n then Some ValueError
      else None)"

definition demo_env :: env where
  "demo_env =
     \<lparr>jwt_decode = demo_decode, jwt_encode = demo_encode,
      fromtimestamp_error = demo_fromtimestamp_error,
      checkpw = (\<lambda>pw h. h = ''$'' @ pw), hashpw = (\<lambda>pw salt. ''$'' @ pw),
      sanitize_path = (\<lambda>p. p),
      ACCESS_TOKEN_EXPIRE_MINUTES = 30, REFRESH_TOKEN_EXPIRE_DAYS = 7,
      DEFAULT_LIMIT = 10, DEFAULT_PERIOD = 3600\<rparr>"

definition alice :: user where
  "alice =
     \<lparr>name = ''Alice'', username = ''alice'', email = ''a@x.com'', user_id = 1,
      hashed_password = ''$secret99'', is_active = True, is_superuser = False,
      tier_id = Some 1, is_deleted = False, last_login = None\<rparr>"

definition alice_in :: AuthUserCreate where
  "alice_in =
     \<lparr>name = ''Alice'', username = ''alice'', email = ''a@x.com'', password = ''secret99''\<rparr>"

definition empty_state :: state where
  "empty_state =
     \<lparr>users = [], token_blacklist = [], tiers = [], rate_limits = [],
      redis_cache = Map.empty, queue_jobs = [], background_tasks = []\<rparr>"

definition demo_state :: state where
  "demo_state =
     empty_state
       \<lparr>users := [alice],
        tiers := [\<lparr>tier_pk = 1, tier_name = ''free''\<rparr>],
        rate_limits := [\<lparr>rl_tier_id = 1, path = ''api_v1_tasks'', limit = 3, period = 60\<rparr>]\<rparr>"

text \<open>
  The scenario of the specification: \<^verbatim>\<open>alice\<close> registers on the empty system and is sent
  the code \<^verbatim>\<open>code1\<close>; the second reading of the clock comes a microsecond after the first.
\<close>

definition registered_state :: state where
  "registered_state =
     snd (register_user demo_env 0 1 0 ''code1'' ''salt'' alice_in empty_state)"

text \<open>The tables after the soft delete of \<^verbatim>\<open>alice\<close>.\<close>

definition deleted_state :: state where
  "deleted_state = demo_state\<lparr>users := [alice\<lparr>is_deleted := True\<rparr>]\<rparr>"

section \<open>Facts of the instance\<close>

lemma demo_decode_access:
  "jwt_decode demo_env now ''access.alice.2000'' =
     (if 2000 < now then Inl ExpiredSignatureError
      else Inr \<lparr>sub = Some ''alice'', token_type = Some ''access'', exp = Some 2000\<rparr>)"
  by (simp add: demo_env_def demo_decode_def demo_issued_def demo_encode_def decimal.simps)

lemma demo_decode_refresh:
  "jwt_decode demo_env now ''refresh.alice.9000'' =
     (if 9000 < now then Inl ExpiredSignatureError
      else Inr \<lparr>sub = Some ''alice'', token_type = Some ''refresh'', exp = Some 9000\<rparr>)"
  by (simp add: demo_env_def demo_decode_def demo_issued_def demo_encode_def decimal.simps)

lemma demo_decode_garbage: "jwt_decode demo_env now ''garbage'' = Inl JWTError"
  by (simp add: demo_env_def demo_decode_def demo_issued_def demo_encode_def decimal.simps)

lemma demo_fromtimestamp:
  "fromtimestamp demo_env (Some 2000) = Inr 2000"
  "fromtimestamp demo_env (Some 9000) = Inr 9000"
  by (simp_all add: fromtimestamp_def demo_env_def demo_fromtimestamp_error_def)

section \<open>Revocation\<close>

lemma blacklist_exists_create:
  "crud_token_blacklist_exists t (crud_token_blacklist_create t' e s) =
     (t = t' \<or> crud_token_blacklist_exists t s)"
  by (auto simp: crud_token_blacklist_exists_def crud_token_blacklist_create_def list_ex_iff)

lemma blacklist_loop_keeps:
  "crud_token_blacklist_exists t s \<Longrightarrow>
   crud_token_blacklist_exists t (snd (blacklist_loop env now ts s))"
  by (induction ts arbitrary: s) (auto simp: blacklist_exists_create split: sum.splits)

lemma blacklist_loop_ok:
  "fst (blacklist_loop env now ts s) = Inr () \<Longrightarrow> t \<in> set ts \<Longrightarrow>
   crud_token_blacklist_exists t (snd (blacklist_loop env now ts s))"
proof (induction ts arbitrary: s)
  case Nil
  then show ?case by simp
next
  case (Cons a ts)
  then show ?case
    by (auto simp: blacklist_exists_create blacklist_loop_keeps split: sum.splits)
qed

lemma blacklist_token_ok:
  "fst (blacklist_token env now t s) = Inr () \<Longrightarrow>
   crud_token_blacklist_exists t (snd (blacklist_token env now t s))"
  by (auto simp: blacklist_token_def blacklist_exists_create split: sum.splits)

lemma verify_token_blacklisted:
  "crud_token_blacklist_exists t s \<Longrightarrow> verify_token env now t ty s = None"
  by (simp add: verify_token_def)

lemma logout_ok_blacklist_tokens:
  "fst (logout env now a r s) = Inr m \<Longrightarrow>
   snd (logout env now a r s) = snd (blacklist_tokens env now a r s)
   \<and> fst (blacklist_tokens env now a r s) = Inr ()"
  by (auto simp: logout_def split: if_splits prod.splits sum.splits exn.splits)

lemma blacklist_tokens_ok:
  "fst (blacklist_tokens env now a r s) = Inr () \<Longrightarrow>
   crud_token_blacklist_exists a (snd (blacklist_tokens env now a r s))
   \<and> crud_token_blacklist_exists r (snd (blacklist_tokens env now a r s))"
  unfolding blacklist_tokens_def using blacklist_loop_ok [of env now "[a, r]" s] by simp

text \<open>
  Claim C1. A token on the blacklist never verifies, whatever type is expected and
  whatever the codec says of it at the time of the check (\<open>env'\<close>, \<open>now'\<close>): the
  existence check comes first. After \<^verbatim>\<open>blacklist_tokens\<close> (so after a logout that
  succeeded) both tokens are on the blacklist, and after \<^verbatim>\<open>blacklist_token\<close> (so after
  the deletion of one's account) the token is: issue, revoke, verify never validates.
\<close>

theorem revoked_token_never_verifies:
  "(crud_token_blacklist_exists t s \<longrightarrow> verify_token env' now' t ty s = None)
   \<and> (fst (blacklist_tokens env now a r s) = Inr () \<longrightarrow>
        verify_token env' now' a ty (snd (blacklist_tokens env now a r s)) = None
        \<and> verify_token env' now' r ty (snd (blacklist_tokens env now a r s)) = None)
   \<and> (fst (blacklist_token env now t s) = Inr () \<longrightarrow>
        verify_token env' now' t ty (snd (blacklist_token env now t s)) = None)
   \<and> (fst (logout env now a r s) = Inr m \<longrightarrow>
        verify_token env' now' a ty (snd (logout env now a r s)) = None
        \<and> verify_token env' now' r ty (snd (logout env now a r s)) = None)
   \<and> (fst (delete_user_me env now cu t s) = Inr m \<longrightarrow>
        verify_token env' now' t ty (snd (delete_user_me env now cu t s)) = None)"
proof -
  have dm: "fst (delete_user_me env now cu t s) = Inr m \<Longrightarrow>
      crud_token_blacklist_exists t (snd (delete_user_me env now cu t s))"
  proof -
    assume a: "fst (delete_user_me env now cu t s) = Inr m"
    let ?s1 = "crud_users_update (\<lambda>r. r\<lparr>is_deleted := True\<rparr>)
                 (\<lambda>r. username r = username cu) s"
    from a have "fst (blacklist_token env now t ?s1) = Inr ()"
      and "snd (delete_user_me env now cu t s) = snd (blacklist_token env now t ?s1)"
      by (auto simp: delete_user_me_def Let_def split: prod.splits sum.splits)
    then show ?thesis
      using blacklist_token_ok [of env now t ?s1] by simp
  qed
  show ?thesis
    using logout_ok_blacklist_tokens [of env now a r s m] blacklist_tokens_ok [of env now a r s]
      dm blacklist_token_ok [of env now t s]
    by (auto simp: verify_token_blacklisted)
qed

theorem revoked_token_never_verifies_witness:
  "fst (logout demo_env 1000 ''access.alice.2000'' ''refresh.alice.9000'' demo_state)
     = Inr [(''message'', ''Logged out successfully'')]
   \<and> verify_token demo_env 1000 ''access.alice.2000'' ACCESS demo_state
       = Some \<lparr>username_or_email = ''alice''\<rparr>
   \<and> verify_token demo_env 1001 ''access.alice.2000'' ACCESS
        (snd (logout demo_env 1000 ''access.alice.2000'' ''refresh.alice.9000'' demo_state)) = None
   \<and> verify_token demo_env 1001 ''refresh.alice.9000'' REFRESH
        (snd (logout demo_env 1000 ''access.alice.2000'' ''refresh.alice.9000'' demo_state)) = None"
proof -
  have ok: "fst (logout demo_env 1000 ''access.alice.2000'' ''refresh.alice.9000'' demo_state)
     = Inr [(''message'', ''Logged out successfully'')]"
    by (simp add: logout_def blacklist_tokens_def demo_decode_access demo_decode_refresh
        demo_fromtimestamp)
  have before: "verify_token demo_env 1000 ''access.alice.2000'' ACCESS demo_state
       = Some \<lparr>username_or_email = ''alice''\<rparr>"
    by (simp add: verify_token_def crud_token_blacklist_exists_def demo_state_def
        empty_state_def demo_decode_access)
  show ?thesis
    using ok before
      revoked_token_never_verifies [of "''access.alice.2000''" demo_state demo_env 1001 ACCESS
        demo_env 1000 "''access.alice.2000''" "''refresh.alice.9000''"
        "[(''message'', ''Logged out successfully'')]" alice]
      revoked_token_never_verifies [of "''access.alice.2000''" demo_state demo_env 1001 REFRESH
        demo_env 1000 "''access.alice.2000''" "''refresh.alice.9000''"
        "[(''message'', ''Logged out successfully'')]" alice]
    by simp
qed


section \<open>Verification of a token\<close>

lemma TokenType_value_inj: "TokenType_value a = TokenType_value b \<Longrightarrow> a = b"
  by (cases a; cases b) simp_all

text \<open>
  Claim C6. \<^verbatim>\<open>verify_token\<close> fails in one way only. Whatever \<^verbatim>\<open>jwt.decode\<close> raises (bad
  signature, expired, malformed), a declared type other than the expected one, a missing
  subject, or an entry on the blacklist: the result is \<open>None\<close>, and the result type has
  no room for the cause. A token verifies only when it is not on the blacklist, decodes,
  has a subject and declares exactly the expected type.
\<close>

theorem verify_token_fails_uniformly:
  "(jwt_decode env now token = Inl e \<longrightarrow> verify_token env now token ty s = None)
   \<and> (jwt_decode env now token = Inr p \<and> token_type p \<noteq> Some (TokenType_value ty) \<longrightarrow>
        verify_token env now token ty s = None)
   \<and> (jwt_decode env now token = Inr p \<and> token_type p = Some (TokenType_value ty') \<and> ty' \<noteq> ty \<longrightarrow>
        verify_token env now token ty s = None)
   \<and> (jwt_decode env now token = Inr p \<and> sub p = None \<longrightarrow>
        verify_token env now token ty s = None)
   \<and> (crud_token_blacklist_exists token s \<longrightarrow> verify_token env now token ty s = None)
   \<and> (verify_token env now token ty s = None
        \<or> (\<exists>q n. jwt_decode env now token = Inr q \<and> sub q = Some n
               \<and> token_type q = Some (TokenType_value ty)
               \<and> \<not> crud_token_blacklist_exists token s
               \<and> verify_token env now token ty s = Some \<lparr>username_or_email = n\<rparr>))"
  using TokenType_value_inj [of ty' ty]
  by (auto simp: verify_token_def split: sum.splits)

theorem verify_token_fails_uniformly_witness:
  "verify_token demo_env 2001 ''access.alice.2000'' ACCESS demo_state = None
   \<and> verify_token demo_env 1000 ''access.alice.2000'' REFRESH demo_state = None
   \<and> verify_token demo_env 1000 ''garbage'' ACCESS demo_state = None
   \<and> verify_token demo_env 1000 ''access.alice.2000'' ACCESS demo_state
       = Some \<lparr>username_or_email = ''alice''\<rparr>"
proof -
  have d1: "jwt_decode demo_env 2001 ''access.alice.2000'' = Inl ExpiredSignatureError"
    by (simp add: demo_decode_access)
  have d2: "jwt_decode demo_env 1000 ''access.alice.2000''
      = Inr \<lparr>sub = Some ''alice'', token_type = Some ''access'', exp = Some 2000\<rparr>"
    by (simp add: demo_decode_access)
  have d3: "jwt_decode demo_env 1000 ''garbage'' = Inl JWTError"
    by (rule demo_decode_garbage)
  have nb: "\<not> crud_token_blacklist_exists ''access.alice.2000'' demo_state"
    by (simp add: crud_token_blacklist_exists_def demo_state_def empty_state_def)
  have ok: "verify_token demo_env 1000 ''access.alice.2000'' ACCESS demo_state
       = Some \<lparr>username_or_email = ''alice''\<rparr>"
    by (simp add: verify_token_def nb d2)
  show ?thesis
    using d1 d2 d3 ok
      verify_token_fails_uniformly [of demo_env 2001 "''access.alice.2000''" ExpiredSignatureError
        ACCESS demo_state]
      verify_token_fails_uniformly [of demo_env 1000 "''access.alice.2000''" _ REFRESH demo_state
        "\<lparr>sub = Some ''alice'', token_type = Some ''access'', exp = Some 2000\<rparr>" ACCESS]
      verify_token_fails_uniformly [of demo_env 1000 "''garbage''" JWTError ACCESS demo_state]
    by simp
qed


section \<open>Logout\<close>






section \<open>One-time codes\<close>

lemma RedisStorage_set_ok:
  assumes "0 < ttl" and "0 \<le> t0" and "t0 + ttl * 1000 \<le> LLONG_MAX"
  shows "RedisStorage_set r t0 k v (Some ttl) = (True, r(k \<mapsto> (v, Some (t0 + ttl * 1000))))"
proof -
  from assms have "ttl * 1000 \<le> LLONG_MAX" by simp
  then have "ttl \<le> LLONG_MAX div 1000" by (simp add: LLONG_MAX_def)
  with assms show ?thesis
    by (simp add: RedisStorage_set_def client_set_def)
qed

lemma RedisStorage_getdel_removes:
  "snd (RedisStorage_get r t k True) k = None"
  by (simp add: RedisStorage_get_def client_getdel_def)

lemma RedisStorage_get_absent:
  "r k = None \<Longrightarrow> fst (RedisStorage_get r t k d) = None"
  by (simp add: RedisStorage_get_def client_getdel_def client_get_def redis_lookup_def)

lemma verify_token_from_redis_consumes:
  "redis_cache (snd (verify_token_from_redis t tok ty s)) (token_key ty tok) = None"
  by (simp add: verify_token_from_redis_def Let_def RedisStorage_getdel_removes
      split: option.splits)

lemma verify_token_from_redis_absent:
  "redis_cache s (token_key ty tok) = None \<Longrightarrow>
   fst (verify_token_from_redis t tok ty s) = None"
  by (simp add: verify_token_from_redis_def Let_def RedisStorage_get_absent
      split: option.splits)

lemma int_seconds_shortly_after:
  assumes "0 < n" and "c1 \<le> c2" and "c2 \<le> c1 + 1000000"
  shows "int_seconds (c1 + n * 1000000 - c2) = (if c2 = c1 then n else n - 1)"
proof (cases "c2 = c1")
  case True
  with assms(1) show ?thesis by (simp add: int_seconds_def)
next
  case False
  define d where "d = c2 - c1"
  with False assms have d: "0 < d" "d \<le> 1000000" by simp_all
  have e: "c1 + n * 1000000 - c2 = (n - 1) * 1000000 + (1000000 - d)"
    by (simp add: d_def algebra_simps)
  have "((n - 1) * 1000000 + (1000000 - d)) div 1000000 = n - 1"
    using d by (simp add: div_pos_pos_trivial)
  moreover have "0 \<le> (n - 1) * 1000000 + (1000000 - d)"
    using d assms(1) by simp
  ultimately show ?thesis
    using False by (simp add: int_seconds_def e)
qed

lemma create_verification_token_stores:
  assumes "c1 \<le> c2" and "c2 \<le> c1 + 1000000" and "0 \<le> t0"
    and "t0 + 604800000 \<le> LLONG_MAX"
    and life: "life = (if ty = RESET_PASSWORD then 1800 else 604800)"
  shows "redis_cache (snd (create_verification_token uuid c1 c2 t0 em ty s))
           (token_key ty uuid)
         = Some (em, Some (t0 + (if c2 = c1 then life else life - 1) * 1000))"
proof -
  let ?n = "if c2 = c1 then life else life - 1"
  have n: "0 < ?n" "t0 + ?n * 1000 \<le> LLONG_MAX"
    using life assms(4) by (auto split: if_splits)
  have pos: "0 < life"
    using life by (simp split: if_splits)
  have secs: "int_seconds (c1 + life * 1000000 - c2) = ?n"
    using int_seconds_shortly_after [OF pos assms(1,2)] by simp
  have st: "RedisStorage_set (redis_cache s) t0 (token_key ty uuid) em (Some ?n)
      = (True, (redis_cache s)(token_key ty uuid \<mapsto> (em, Some (t0 + ?n * 1000))))"
    using n assms(3) by (intro RedisStorage_set_ok)
  have arg: "(if ty = RESET_PASSWORD
              then c1 + RESET_PASSWORD_EXPIRE_MINUTES * 60 * 1000000
              else c1 + VERIFY_ACCOUNT_EXPIRE_DAYS * 86400 * 1000000) - c2
           = c1 + life * 1000000 - c2"
    using life
    by (simp add: RESET_PASSWORD_EXPIRE_MINUTES_def VERIFY_ACCOUNT_EXPIRE_DAYS_def)
  show ?thesis
    unfolding create_verification_token_def Let_def arg secs st by simp
qed

lemma code_accepted_once:
  assumes "em \<noteq> []" and "c1 \<le> c2" and "c2 \<le> c1 + 1000000" and "0 \<le> t0"
    and "t0 + 604800000 \<le> LLONG_MAX"
    and life: "life = (if ty = RESET_PASSWORD then 1800 else 604800)"
    and "t3 < t0 + (life - 1) * 1000"
  shows "fst (verify_token_from_redis t3 uuid ty
                (snd (create_verification_token uuid c1 c2 t0 em ty s))) = Some em"
proof -
  have "redis_lookup (redis_cache (snd (create_verification_token uuid c1 c2 t0 em ty s)))
          t3 (token_key ty uuid) = Some em"
    using create_verification_token_stores [OF assms(2-6), of uuid em s] assms(7)
    by (simp add: redis_lookup_def)
  with assms(1) show ?thesis
    by (simp add: verify_token_from_redis_def Let_def RedisStorage_get_def client_getdel_def)
qed

lemma code_gone_after_window:
  assumes "c1 < c2" and "c2 \<le> c1 + 1000000" and "0 \<le> t0"
    and "t0 + 604800000 \<le> LLONG_MAX"
    and life: "life = (if ty = RESET_PASSWORD then 1800 else 604800)"
    and "t0 + (life - 1) * 1000 \<le> t3"
  shows "fst (verify_token_from_redis t3 uuid ty
                (snd (create_verification_token uuid c1 c2 t0 em ty s))) = None"
proof -
  from assms(1) have le: "c1 \<le> c2" by simp
  have "redis_lookup (redis_cache (snd (create_verification_token uuid c1 c2 t0 em ty s)))
          t3 (token_key ty uuid) = None"
    using create_verification_token_stores [OF le assms(2-5), of uuid em s] assms(1,6)
    by (simp add: redis_lookup_def)
  then show ?thesis
    by (simp add: verify_token_from_redis_def Let_def RedisStorage_get_def client_getdel_def)
qed

text \<open>
  Claim C2. A one-time code is consumed once. After a put that Redis accepts (a positive
  time to live whose expiry fits the server's clock), a first consuming get before the
  expiry returns the value and removes the key, and a second consuming get, at any
  instant \<open>t2\<close>, returns nothing. The same holds for the codes themselves. The time to
  live of a code is the 30 minutes or 7 days less what passed between the two readings
  of the clock, in whole seconds: with the second reading at most a second after the
  first, a code for a non-empty email is accepted by \<^verbatim>\<open>verify_token_from_redis\<close> once,
  during at least 1799 seconds or 604799 seconds after it was stored, and never again.
\<close>

theorem one_time_code_consumed_once:
  assumes "0 < ttl" and "0 \<le> t0" and "t0 + ttl * 1000 \<le> LLONG_MAX"
    and "t0 \<le> t1" and "t1 < t0 + ttl * 1000"
  shows "fst (RedisStorage_set r t0 k v (Some ttl)) = True
    \<and> fst (RedisStorage_get (snd (RedisStorage_set r t0 k v (Some ttl))) t1 k True) = Some v
    \<and> snd (RedisStorage_get (snd (RedisStorage_set r t0 k v (Some ttl))) t1 k True) k = None
    \<and> fst (RedisStorage_get
             (snd (RedisStorage_get (snd (RedisStorage_set r t0 k v (Some ttl))) t1 k True))
             t2 k True) = None
    \<and> (em \<noteq> [] \<and> c1 \<le> c2 \<and> c2 \<le> c1 + 1000000 \<and> t0 + 604800000 \<le> LLONG_MAX
         \<and> t0 \<le> t3 \<and> t3 < t0 + 1799000 \<longrightarrow>
         fst (verify_token_from_redis t3 uuid RESET_PASSWORD
                (snd (create_verification_token uuid c1 c2 t0 em RESET_PASSWORD s))) = Some em
         \<and> fst (verify_token_from_redis t2 uuid RESET_PASSWORD
                  (snd (verify_token_from_redis t3 uuid RESET_PASSWORD
                     (snd (create_verification_token uuid c1 c2 t0 em RESET_PASSWORD s)))))
             = None)
    \<and> (em \<noteq> [] \<and> c1 \<le> c2 \<and> c2 \<le> c1 + 1000000 \<and> t0 + 604800000 \<le> LLONG_MAX
         \<and> t0 \<le> t3 \<and> t3 < t0 + 604799000 \<longrightarrow>
         fst (verify_token_from_redis t3 uuid VERIFY_ACCOUNT
                (snd (create_verification_token uuid c1 c2 t0 em VERIFY_ACCOUNT s))) = Some em
         \<and> fst (verify_token_from_redis t2 uuid VERIFY_ACCOUNT
                  (snd (verify_token_from_redis t3 uuid VERIFY_ACCOUNT
                     (snd (create_verification_token uuid c1 c2 t0 em VERIFY_ACCOUNT s)))))
             = None)"
proof -
  have st: "RedisStorage_set r t0 k v (Some ttl) = (True, r(k \<mapsto> (v, Some (t0 + ttl * 1000))))"
    using assms(1-3) by (rule RedisStorage_set_ok)
  have g1: "fst (RedisStorage_get (r(k \<mapsto> (v, Some (t0 + ttl * 1000)))) t1 k True) = Some v"
    using assms(5) by (simp add: RedisStorage_get_def client_getdel_def redis_lookup_def)
  have storage: "fst (RedisStorage_set r t0 k v (Some ttl)) = True
    \<and> fst (RedisStorage_get (snd (RedisStorage_set r t0 k v (Some ttl))) t1 k True) = Some v
    \<and> snd (RedisStorage_get (snd (RedisStorage_set r t0 k v (Some ttl))) t1 k True) k = None
    \<and> fst (RedisStorage_get
             (snd (RedisStorage_get (snd (RedisStorage_set r t0 k v (Some ttl))) t1 k True))
             t2 k True) = None"
    using g1 by (simp add: st RedisStorage_getdel_removes RedisStorage_get_absent)
  have reset: "fst (verify_token_from_redis t3 uuid RESET_PASSWORD
                (snd (create_verification_token uuid c1 c2 t0 em RESET_PASSWORD s))) = Some em"
    if "em \<noteq> []" "c1 \<le> c2" "c2 \<le> c1 + 1000000" "t0 + 604800000 \<le> LLONG_MAX"
      "t3 < t0 + 1799000"
    using that assms(2)
    by (intro code_accepted_once [where life = 1800]) simp_all
  have verify: "fst (verify_token_from_redis t3 uuid VERIFY_ACCOUNT
                (snd (create_verification_token uuid c1 c2 t0 em VERIFY_ACCOUNT s))) = Some em"
    if "em \<noteq> []" "c1 \<le> c2" "c2 \<le> c1 + 1000000" "t0 + 604800000 \<le> LLONG_MAX"
      "t3 < t0 + 604799000"
    using that assms(2)
    by (intro code_accepted_once [where life = 604800]) simp_all
  have again: "fst (verify_token_from_redis t2 uuid ty
                  (snd (verify_token_from_redis t3 uuid ty s'))) = None" for ty s'
    by (simp add: verify_token_from_redis_absent verify_token_from_redis_consumes)
  show ?thesis
    using storage reset verify again by simp
qed

theorem one_time_code_consumed_once_witness:
  "fst (RedisStorage_get (snd (RedisStorage_set Map.empty 100000 ''k'' ''v'' (Some 30)))
          110000 ''k'' True) = Some ''v''
   \<and> fst (RedisStorage_get
           (snd (RedisStorage_get
                   (snd (RedisStorage_set Map.empty 100000 ''k'' ''v'' (Some 30)))
                   110000 ''k'' True))
           111000 ''k'' True) = None
   \<and> fst (verify_token_from_redis 110000 ''u1'' VERIFY_ACCOUNT
           (snd (create_verification_token ''u1'' 5 9 100000 ''a@x.com'' VERIFY_ACCOUNT
                   empty_state)))
       = Some ''a@x.com''
   \<and> fst (verify_token_from_redis 111000 ''u1'' VERIFY_ACCOUNT
           (snd (verify_token_from_redis 110000 ''u1'' VERIFY_ACCOUNT
              (snd (create_verification_token ''u1'' 5 9 100000 ''a@x.com'' VERIFY_ACCOUNT
                      empty_state)))))
       = None"
proof -
  have h: "(0::int) < 30" "(0::int) \<le> 100000" "100000 + 30 * 1000 \<le> LLONG_MAX"
    "(100000::int) \<le> 110000" "(110000::int) < 100000 + 30 * 1000"
    by (simp_all add: LLONG_MAX_def)
  have e: "''a@x.com'' \<noteq> [] \<and> (5::int) \<le> 9 \<and> (9::int) \<le> 5 + 1000000
      \<and> 100000 + 604800000 \<le> LLONG_MAX
      \<and> (100000::int) \<le> 110000 \<and> (110000::int) < 100000 + 604799000"
    by (simp add: LLONG_MAX_def)
  show ?thesis
    using e one_time_code_consumed_once [OF h, of Map.empty "''k''" "''v''" 111000
        "''a@x.com''" 5 9 110000 "''u1''" empty_state]
    by blast
qed

section \<open>Verify-account\<close>

lemma find_map_same:
  "(\<And>x. P (f x) = P x) \<Longrightarrow> List.find P (map f xs) = map_option f (List.find P xs)"
  by (induction xs) simp_all

lemma verify_token_from_redis_frame:
  "users (snd (verify_token_from_redis t tok ty s)) = users s
   \<and> queue_jobs (snd (verify_token_from_redis t tok ty s)) = queue_jobs s
   \<and> background_tasks (snd (verify_token_from_redis t tok ty s)) = background_tasks s
   \<and> token_blacklist (snd (verify_token_from_redis t tok ty s)) = token_blacklist s"
  by (simp add: verify_token_from_redis_def Let_def split: option.splits)

lemma verify_token_from_redis_live:
  "redis_lookup (redis_cache s) t (token_key ty tok) = Some em \<Longrightarrow> em \<noteq> [] \<Longrightarrow>
   fst (verify_token_from_redis t tok ty s) = Some em"
  by (simp add: verify_token_from_redis_def Let_def RedisStorage_get_def client_getdel_def)

lemma verify_account_redis:
  "redis_cache (snd (verify_account now tok s))
     = redis_cache (snd (verify_token_from_redis now tok VERIFY_ACCOUNT s))"
  by (simp add: verify_account_def Let_def crud_users_update_def split: option.splits)

lemma verify_account_no_code:
  "redis_cache s (token_key VERIFY_ACCOUNT tok) = None \<Longrightarrow>
   fst (verify_account now tok s) = Inl (BadRequestException ''Invalid or expired verification token'')"
  using verify_token_from_redis_absent [of s VERIFY_ACCOUNT tok now]
  by (simp add: verify_account_def Let_def)

lemma verify_account_dispatches_nothing:
  "queue_jobs (snd (verify_account now tok s)) = queue_jobs s
   \<and> background_tasks (snd (verify_account now tok s)) = background_tasks s"
  using verify_token_from_redis_frame [of now tok VERIFY_ACCOUNT s]
  by (simp add: verify_account_def Let_def crud_users_update_def split: option.splits)

lemma verify_account_live:
  assumes "fst (verify_token_from_redis now tok VERIFY_ACCOUNT s) = Some em"
    and "List.find (\<lambda>u. email u = em) (users s) = Some u"
  shows "fst (verify_account now tok s) =
           Inr [(''message'', if is_active u then ''Account already verified''
                              else ''Account verified successfully'')]"
    and "users (snd (verify_account now tok s)) =
           (if is_active u then users s
            else map (\<lambda>r. if user_id r = user_id u then r\<lparr>is_active := True\<rparr> else r) (users s))"
  using assms verify_token_from_redis_frame [of now tok VERIFY_ACCOUNT s]
  by (simp_all add: verify_account_def Let_def crud_users_get_def crud_users_update_def)

text \<open>
  Claim C3, as the code has it. Verify-account consumes its code: whatever the first
  call did, a repeat with the same code is refused with \<^verbatim>\<open>BadRequestException\<close>. A call
  dispatches no notification. With a live code for the email of a principal, the call
  succeeds: an inactive principal becomes active, an active one is left as it is.
\<close>

theorem verify_account_consumes_code:
  "fst (verify_account now' tok (snd (verify_account now tok s)))
     = Inl (BadRequestException ''Invalid or expired verification token'')
   \<and> queue_jobs (snd (verify_account now tok s)) = queue_jobs s
   \<and> background_tasks (snd (verify_account now tok s)) = background_tasks s
   \<and> (redis_lookup (redis_cache s) now (token_key VERIFY_ACCOUNT tok) = Some em \<and> em \<noteq> []
        \<and> List.find (\<lambda>u. email u = em) (users s) = Some u \<and> \<not> is_active u \<longrightarrow>
      fst (verify_account now tok s) = Inr [(''message'', ''Account verified successfully'')]
      \<and> List.find (\<lambda>u. email u = em) (users (snd (verify_account now tok s)))
          = Some (u\<lparr>is_active := True\<rparr>))
   \<and> (redis_lookup (redis_cache s) now (token_key VERIFY_ACCOUNT tok) = Some em \<and> em \<noteq> []
        \<and> List.find (\<lambda>u. email u = em) (users s) = Some u \<and> is_active u \<longrightarrow>
      fst (verify_account now tok s) = Inr [(''message'', ''Account already verified'')]
      \<and> users (snd (verify_account now tok s)) = users s)"
proof -
  have rep: "fst (verify_account now' tok (snd (verify_account now tok s)))
     = Inl (BadRequestException ''Invalid or expired verification token'')"
    by (rule verify_account_no_code)
      (simp add: verify_account_redis verify_token_from_redis_consumes)
  have flip: "fst (verify_account now tok s) = Inr [(''message'', ''Account verified successfully'')]
      \<and> List.find (\<lambda>u. email u = em) (users (snd (verify_account now tok s)))
          = Some (u\<lparr>is_active := True\<rparr>)"
    if h: "redis_lookup (redis_cache s) now (token_key VERIFY_ACCOUNT tok) = Some em" "em \<noteq> []"
      "List.find (\<lambda>u. email u = em) (users s) = Some u" "\<not> is_active u"
  proof -
    have v: "fst (verify_token_from_redis now tok VERIFY_ACCOUNT s) = Some em"
      using h(1,2) by (rule verify_token_from_redis_live)
    have "List.find (\<lambda>u. email u = em)
            (map (\<lambda>r. if user_id r = user_id u then r\<lparr>is_active := True\<rparr> else r) (users s))
          = map_option (\<lambda>r. if user_id r = user_id u then r\<lparr>is_active := True\<rparr> else r)
              (List.find (\<lambda>u. email u = em) (users s))"
      by (rule find_map_same) simp
    then show ?thesis
      using verify_account_live [OF v h(3)] h(3,4) by simp
  qed
  have same: "fst (verify_account now tok s) = Inr [(''message'', ''Account already verified'')]
      \<and> users (snd (verify_account now tok s)) = users s"
    if h: "redis_lookup (redis_cache s) now (token_key VERIFY_ACCOUNT tok) = Some em" "em \<noteq> []"
      "List.find (\<lambda>u. email u = em) (users s) = Some u" "is_active u"
  proof -
    have v: "fst (verify_token_from_redis now tok VERIFY_ACCOUNT s) = Some em"
      using h(1,2) by (rule verify_token_from_redis_live)
    show ?thesis
      using verify_account_live [OF v h(3)] h(4) by simp
  qed
  show ?thesis
    using rep verify_account_dispatches_nothing [of now tok s] flip same by blast
qed

lemma registered_state_eq:
  "registered_state =
     empty_state
       \<lparr>users := [alice\<lparr>is_active := False, tier_id := None\<rparr>],
        redis_cache := [''TokenType.VERIFY_ACCOUNT:code1'' \<mapsto> (''a@x.com'', Some 604799000)],
        queue_jobs := [\<lparr>function_name = ''send_email'',
                        kwargs = [(''email'', ''a@x.com''), (''name'', ''Alice''),
                                  (''verification_code'', ''code1'')]\<rparr>]\<rparr>"
  by (simp add: registered_state_def register_user_def crud_users_exists_def empty_state_def
      alice_in_def alice_def Let_def crud_users_create_def next_id_def get_password_hash_def
      demo_env_def create_verification_token_def token_key_def RedisStorage_set_def
      client_set_def VERIFY_ACCOUNT_EXPIRE_DAYS_def int_seconds_def LLONG_MAX_def
      enqueue_def)

text \<open>
  The scenario of the specification refutes the claim as it is written: after the
  registration of \<^verbatim>\<open>alice\<close>, verify-account with the right code succeeds, and the repeat
  does not.
\<close>

theorem verify_account_repeat_counterexample:
  "fst (verify_account 10 ''code1'' registered_state)
     = Inr [(''message'', ''Account verified successfully'')]
   \<and> fst (verify_account 11 ''code1'' (snd (verify_account 10 ''code1'' registered_state)))
       = Inl (BadRequestException ''Invalid or expired verification token'')"
  by (simp add: registered_state_eq verify_account_def verify_token_from_redis_def Let_def
      token_key_def RedisStorage_get_def client_getdel_def redis_lookup_def
      crud_users_get_def crud_users_update_def empty_state_def alice_def)

theorem verify_account_consumes_code_witness:
  "fst (verify_account 10 ''code1'' registered_state)
     = Inr [(''message'', ''Account verified successfully'')]
   \<and> List.find (\<lambda>u. email u = ''a@x.com'')
        (users (snd (verify_account 10 ''code1'' registered_state)))
       = Some (alice\<lparr>tier_id := None\<rparr>)
   \<and> queue_jobs (snd (verify_account 10 ''code1'' registered_state))
       = queue_jobs registered_state"
proof -
  have l: "redis_lookup (redis_cache registered_state) 10 (token_key VERIFY_ACCOUNT ''code1'')
      = Some ''a@x.com''"
    by (simp add: registered_state_eq redis_lookup_def token_key_def empty_state_def)
  have f: "List.find (\<lambda>u. email u = ''a@x.com'') (users registered_state)
      = Some (alice\<lparr>is_active := False, tier_id := None\<rparr>)"
    by (simp add: registered_state_eq empty_state_def alice_def)
  have n: "\<not> is_active (alice\<lparr>is_active := False, tier_id := None\<rparr>)" "''a@x.com'' \<noteq> []"
    by simp_all
  have e: "alice\<lparr>is_active := False, tier_id := None\<rparr>\<lparr>is_active := True\<rparr>
      = alice\<lparr>tier_id := None\<rparr>"
    by (simp add: alice_def)
  show ?thesis
    using l f n e
      verify_account_consumes_code [of 11 "''code1''" 10 registered_state "''a@x.com''"
        "alice\<lparr>is_active := False, tier_id := None\<rparr>"]
    by simp
qed


section \<open>Registration\<close>

lemma register_user_collision:
  "crud_users_exists (\<lambda>u. username u = username user_in) s
   \<or> crud_users_exists (\<lambda>u. email u = email user_in) s \<Longrightarrow>
   register_user env now now' rnow uuid salt user_in s =
     (Inl (BadRequestException
            (if crud_users_exists (\<lambda>u. username u = username user_in) s
             then ''Username already exists'' else ''Email already exists'')), s)"
  by (auto simp: register_user_def)

lemma create_user_collision:
  "crud_users_exists (\<lambda>u. username u = username usr) s
   \<or> crud_users_exists (\<lambda>u. email u = email usr) s \<Longrightarrow>
   create_user env salt act su usr s =
     (Inl (DuplicateValueException
            (if crud_users_exists (\<lambda>u. email u = email usr) s
             then ''Email is already registered'' else ''Username not available'')), s)"
  by (auto simp: create_user_def)

text \<open>
  Claim C4 asks for the duplicate-value error when a registration collides. The lemmas
  above give what each endpoint raises on a collision, leaving the state as it was:
  \<^verbatim>\<open>register_user\<close> raises \<^verbatim>\<open>BadRequestException\<close>, where \<^verbatim>\<open>create_user\<close> raises
  \<^verbatim>\<open>DuplicateValueException\<close>. Registering \<^verbatim>\<open>alice\<close> a second time shows both.
\<close>

theorem register_user_collision_is_bad_request:
  "register_user demo_env 5 6 5 ''code2'' ''salt'' alice_in demo_state
     = (Inl (BadRequestException ''Username already exists''), demo_state)
   \<and> create_user demo_env ''salt'' False False alice_in demo_state
     = (Inl (DuplicateValueException ''Email is already registered''), demo_state)"
proof -
  have u: "crud_users_exists (\<lambda>u. username u = username alice_in) demo_state"
    by (simp add: crud_users_exists_def demo_state_def empty_state_def alice_def alice_in_def)
  have e: "crud_users_exists (\<lambda>u. email u = email alice_in) demo_state"
    by (simp add: crud_users_exists_def demo_state_def empty_state_def alice_def alice_in_def)
  show ?thesis
    using u e register_user_collision [of alice_in demo_state demo_env 5 6 5 "''code2''" "''salt''"]
      create_user_collision [of alice_in demo_state demo_env "''salt''" False False]
    by simp
qed


section \<open>Request-password-reset\<close>

text \<open>
  Claim C5. The answer of request-password-reset is the same for any two requests, so
  for a registered and an unregistered email. For an unregistered email the state is
  left as it was: no code in the cache, no task scheduled, no job enqueued. For a
  registered one a task is scheduled.
\<close>

theorem request_password_reset_enumeration_safe:
  "fst (request_password_reset c1 c2 t uuid e1 s)
     = fst (request_password_reset c1' c2' t' uuid' e2 s')
   \<and> (\<not> crud_users_exists (\<lambda>u. email u = e) s \<longrightarrow>
        snd (request_password_reset c1 c2 t uuid e s) = s)
   \<and> (crud_users_exists (\<lambda>u. email u = e) s \<longrightarrow>
        length (background_tasks (snd (request_password_reset c1 c2 t uuid e s)))
          = length (background_tasks s) + 1)"
proof -
  have msg: "fst (request_password_reset a b c u x st) =
      [(''message'',
        ''If your email is registered, you will receive password reset instructions'')]"
    for a b c u x st
    by (simp add: request_password_reset_def Let_def split: option.splits)
  have none: "snd (request_password_reset c1 c2 t uuid e s) = s"
    if "\<not> crud_users_exists (\<lambda>u. email u = e) s"
  proof -
    from that have "crud_users_get (\<lambda>u. email u = e) s = None"
      by (simp add: crud_users_exists_def crud_users_get_def list_ex_iff find_None_iff)
    then show ?thesis
      by (simp add: request_password_reset_def)
  qed
  have some: "length (background_tasks (snd (request_password_reset c1 c2 t uuid e s)))
        = length (background_tasks s) + 1"
    if "crud_users_exists (\<lambda>u. email u = e) s"
  proof -
    from that have "crud_users_get (\<lambda>u. email u = e) s \<noteq> None"
      by (auto simp: crud_users_exists_def crud_users_get_def list_ex_iff find_None_iff)
    then obtain u where "crud_users_get (\<lambda>u. email u = e) s = Some u"
      by blast
    then show ?thesis
      by (simp add: request_password_reset_def Let_def add_task_def
          create_verification_token_def)
  qed
  show ?thesis
    using msg none some by simp
qed

theorem request_password_reset_enumeration_safe_witness:
  "fst (request_password_reset 5 6 5 ''u1'' ''a@x.com'' demo_state)
     = fst (request_password_reset 5 6 5 ''u1'' ''nobody@x.com'' demo_state)
   \<and> snd (request_password_reset 5 6 5 ''u1'' ''nobody@x.com'' demo_state) = demo_state
   \<and> length (background_tasks (snd (request_password_reset 5 6 5 ''u1'' ''a@x.com'' demo_state)))
       = 1"
proof -
  have n: "\<not> crud_users_exists (\<lambda>u. email u = ''nobody@x.com'') demo_state"
    by (simp add: crud_users_exists_def demo_state_def empty_state_def alice_def)
  have y: "crud_users_exists (\<lambda>u. email u = ''a@x.com'') demo_state"
    by (simp add: crud_users_exists_def demo_state_def empty_state_def alice_def)
  have b: "background_tasks demo_state = []"
    by (simp add: demo_state_def empty_state_def)
  show ?thesis
    using n y b
      request_password_reset_enumeration_safe [of 5 6 5 "''u1''" "''a@x.com''" demo_state
        5 6 5 "''u1''" "''nobody@x.com''" demo_state "''nobody@x.com''"]
      request_password_reset_enumeration_safe [of 5 6 5 "''u1''" "''a@x.com''" demo_state
        5 6 5 "''u1''" "''nobody@x.com''" demo_state "''a@x.com''"]
    by simp
qed


section \<open>Login\<close>

lemma authenticate_user_find:
  "authenticate_user env uoe pw s =
     (case List.find (\<lambda>u. (if CHR ''@'' \<in> set uoe then email u else username u) = uoe
                            \<and> \<not> is_deleted u) (users s) of
        None \<Rightarrow> None
      | Some u \<Rightarrow> if checkpw env pw (hashed_password u) then Some u else None)"
  by (simp add: authenticate_user_def crud_users_get_def verify_password_def Let_def
      split: option.splits)

text \<open>
  Claim C8. The principal is looked up by email when the input contains \<^verbatim>\<open>@\<close> and by
  username otherwise, among the rows that are not soft-deleted. When every row under the
  identifier is soft-deleted (or there is none), and when the password does not match,
  login raises the same \<^verbatim>\<open>UnauthorizedException\<close> with the same message and changes
  nothing. When the password matches and the account is inactive, it raises
  \<^verbatim>\<open>UnauthorizedException\<close> with the message of its own. Otherwise it returns the pair
  of tokens.
\<close>

theorem login_rejections:
  "((\<forall>u \<in> set (users s).
        (if CHR ''@'' \<in> set uoe then email u else username u) = uoe \<longrightarrow> is_deleted u) \<longrightarrow>
      login_for_access_token env now uoe pw s
        = (Inl (UnauthorizedException ''Wrong username, email or password.''), s))
   \<and> (List.find (\<lambda>u. (if CHR ''@'' \<in> set uoe then email u else username u) = uoe
                       \<and> \<not> is_deleted u) (users s) = Some u
        \<and> \<not> checkpw env pw (hashed_password u) \<longrightarrow>
      login_for_access_token env now uoe pw s
        = (Inl (UnauthorizedException ''Wrong username, email or password.''), s))
   \<and> (List.find (\<lambda>u. (if CHR ''@'' \<in> set uoe then email u else username u) = uoe
                       \<and> \<not> is_deleted u) (users s) = Some u
        \<and> checkpw env pw (hashed_password u) \<and> \<not> is_active u \<longrightarrow>
      login_for_access_token env now uoe pw s
        = (Inl (UnauthorizedException
                  ''Account is not activated. Please verify your email first.''), s)
      \<and> fst (login_for_access_token env now uoe pw s)
          \<noteq> Inl (UnauthorizedException ''Wrong username, email or password.''))
   \<and> (List.find (\<lambda>u. (if CHR ''@'' \<in> set uoe then email u else username u) = uoe
                       \<and> \<not> is_deleted u) (users s) = Some u
        \<and> checkpw env pw (hashed_password u) \<and> is_active u \<longrightarrow>
      fst (login_for_access_token env now uoe pw s)
        = Inr [(''access_token'',
                create_access_token env now (username u)
                  (Some (ACCESS_TOKEN_EXPIRE_MINUTES env * 60))),
               (''token_type'', ''bearer''),
               (''refresh_token'', create_refresh_token env now (username u) None)])"
proof -
  let ?P = "\<lambda>u. (if CHR ''@'' \<in> set uoe then email u else username u) = uoe \<and> \<not> is_deleted u"
  have absent: "List.find ?P (users s) = None"
    if "\<forall>u \<in> set (users s).
        (if CHR ''@'' \<in> set uoe then email u else username u) = uoe \<longrightarrow> is_deleted u"
    using that by (auto simp: find_None_iff)
  show ?thesis
    using absent
    by (auto simp: login_for_access_token_def authenticate_user_find Let_def)
qed

theorem login_rejections_witness:
  "fst (login_for_access_token demo_env 20 ''bob'' ''secret99'' registered_state)
     = Inl (UnauthorizedException ''Wrong username, email or password.'')
   \<and> fst (login_for_access_token demo_env 20 ''alice'' ''wrong'' registered_state)
     = Inl (UnauthorizedException ''Wrong username, email or password.'')
   \<and> fst (login_for_access_token demo_env 20 ''a@x.com'' ''secret99'' registered_state)
     = Inl (UnauthorizedException ''Account is not activated. Please verify your email first.'')"
proof -
  let ?a = "alice\<lparr>is_active := False, tier_id := None\<rparr>"
  have us: "users registered_state = [?a]"
    by (simp add: registered_state_eq empty_state_def)
  have bob: "\<forall>u \<in> set (users registered_state).
      (if CHR ''@'' \<in> set ''bob'' then email u else username u) = ''bob'' \<longrightarrow> is_deleted u"
    by (simp add: us alice_def)
  have by_name: "List.find (\<lambda>u. (if CHR ''@'' \<in> set ''alice'' then email u else username u)
        = ''alice'' \<and> \<not> is_deleted u) (users registered_state) = Some ?a"
    by (simp add: us alice_def)
  have by_mail: "List.find (\<lambda>u. (if CHR ''@'' \<in> set ''a@x.com'' then email u else username u)
        = ''a@x.com'' \<and> \<not> is_deleted u) (users registered_state) = Some ?a"
    by (simp add: us alice_def)
  have pw: "\<not> checkpw demo_env ''wrong'' (hashed_password ?a)"
    "checkpw demo_env ''secret99'' (hashed_password ?a)" "\<not> is_active ?a"
    by (simp_all add: demo_env_def alice_def)
  have 1: "fst (login_for_access_token demo_env 20 ''bob'' ''secret99'' registered_state)
     = Inl (UnauthorizedException ''Wrong username, email or password.'')"
    using bob login_rejections [of registered_state "''bob''" demo_env 20 "''secret99''"]
    by simp
  have 2: "fst (login_for_access_token demo_env 20 ''alice'' ''wrong'' registered_state)
     = Inl (UnauthorizedException ''Wrong username, email or password.'')"
    using by_name pw(1)
      login_rejections [of registered_state "''alice''" demo_env 20 "''wrong''" ?a]
    by simp
  have 3: "fst (login_for_access_token demo_env 20 ''a@x.com'' ''secret99'' registered_state)
     = Inl (UnauthorizedException ''Account is not activated. Please verify your email first.'')"
    using by_mail pw(2,3)
      login_rejections [of registered_state "''a@x.com''" demo_env 20 "''secret99''" ?a]
    by simp
  show ?thesis
    using 1 2 3 by simp
qed


section \<open>Rate limits\<close>

text \<open>
  Claim C9. The limiter is called with a limit and a period resolved in this order. For
  a user with a tier that has a rule for the normalised path (the rule found is a row of
  the table with the user's tier and exactly that path), the rule's limit and period. For
  a user with no tier assigned, with a tier that does not exist, or with no rule for the
  path, the default limit and period: no error is raised for it. For a caller without a
  user, the key is the client's host and the limit and period are the defaults.
\<close>

theorem rate_limit_resolution:
  "(usr = Some u \<and> crud_tiers_get (tier_id u) s = Some t
      \<and> crud_rate_limits_get (tier_pk t) (sanitize_path env (url_path req)) s = Some rl \<longrightarrow>
      rl \<in> set (rate_limits s) \<and> Some (rl_tier_id rl) = tier_id u
      \<and> path rl = sanitize_path env (url_path req)
      \<and> rate_limiter_dependency env f req usr s =
          (if f (UserId (user_id u)) (sanitize_path env (url_path req)) (limit rl) (period rl)
           then Inl (RateLimitException ''Rate limit exceeded.'') else Inr ()))
   \<and> (usr = Some u
      \<and> (tier_id u = None \<or> \<not> list_ex (\<lambda>t. Some (tier_pk t) = tier_id u) (tiers s)
          \<or> \<not> list_ex (\<lambda>r. Some (rl_tier_id r) = tier_id u
                              \<and> path r = sanitize_path env (url_path req)) (rate_limits s)) \<longrightarrow>
      rate_limiter_dependency env f req usr s =
          (if f (UserId (user_id u)) (sanitize_path env (url_path req))
                (DEFAULT_LIMIT env) (DEFAULT_PERIOD env)
           then Inl (RateLimitException ''Rate limit exceeded.'') else Inr ()))
   \<and> (usr = None \<and> client_host req = Some h \<longrightarrow>
      rate_limiter_dependency env f req usr s =
          (if f (Host h) (sanitize_path env (url_path req))
                (DEFAULT_LIMIT env) (DEFAULT_PERIOD env)
           then Inl (RateLimitException ''Rate limit exceeded.'') else Inr ()))"
proof -
  let ?p = "sanitize_path env (url_path req)"
  let ?dflt = "if f (UserId (user_id u)) ?p (DEFAULT_LIMIT env) (DEFAULT_PERIOD env)
           then Inl (RateLimitException ''Rate limit exceeded.'') else Inr ()"
  have tier_pk: "Some (tier_pk t') = tier_id u"
    if "crud_tiers_get (tier_id u) s = Some t'" for t'
    using that by (auto simp: crud_tiers_get_def find_Some_iff)
  have rule: "rl \<in> set (rate_limits s) \<and> Some (rl_tier_id rl) = tier_id u \<and> path rl = ?p
      \<and> rate_limiter_dependency env f req usr s =
          (if f (UserId (user_id u)) ?p (limit rl) (period rl)
           then Inl (RateLimitException ''Rate limit exceeded.'') else Inr ())"
    if h: "usr = Some u" "crud_tiers_get (tier_id u) s = Some t"
      "crud_rate_limits_get (tier_pk t) ?p s = Some rl"
  proof -
    from h(3) have "rl \<in> set (rate_limits s)" "rl_tier_id rl = tier_pk t" "path rl = ?p"
      by (auto simp: crud_rate_limits_get_def find_Some_iff)
    with tier_pk [OF h(2)] h show ?thesis
      by (simp add: rate_limiter_dependency_def Let_def)
  qed
  have no_tier: "rate_limiter_dependency env f req usr s = ?dflt"
    if h: "usr = Some u"
      "tier_id u = None \<or> \<not> list_ex (\<lambda>t. Some (tier_pk t) = tier_id u) (tiers s)"
  proof -
    from h(2) have "crud_tiers_get (tier_id u) s = None"
      by (auto simp: crud_tiers_get_def find_None_iff list_ex_iff)
    with h(1) show ?thesis
      by (simp add: rate_limiter_dependency_def Let_def)
  qed
  have no_rule: "rate_limiter_dependency env f req usr s = ?dflt"
    if h: "usr = Some u"
      "\<not> list_ex (\<lambda>r. Some (rl_tier_id r) = tier_id u \<and> path r = ?p) (rate_limits s)"
  proof (cases "crud_tiers_get (tier_id u) s")
    case None
    with h(1) show ?thesis
      by (simp add: rate_limiter_dependency_def Let_def)
  next
    case (Some t')
    from h(2) tier_pk [OF Some] have "crud_rate_limits_get (tier_pk t') ?p s = None"
      by (auto simp: crud_rate_limits_get_def find_None_iff list_ex_iff)
    with Some h(1) show ?thesis
      by (simp add: rate_limiter_dependency_def Let_def)
  qed
  have anon: "rate_limiter_dependency env f req usr s =
          (if f (Host h) ?p (DEFAULT_LIMIT env) (DEFAULT_PERIOD env)
           then Inl (RateLimitException ''Rate limit exceeded.'') else Inr ())"
    if "usr = None" "client_host req = Some h"
    using that by (simp add: rate_limiter_dependency_def Let_def)
  show ?thesis
    using rule no_tier no_rule anon by blast
qed

theorem rate_limit_resolution_witness:
  "rate_limiter_dependency demo_env (\<lambda>k p l q. l < 5)
       \<lparr>url_path = ''api_v1_tasks'', client_host = Some ''10.0.0.1''\<rparr> (Some alice) demo_state
     = Inl (RateLimitException ''Rate limit exceeded.'')
   \<and> rate_limiter_dependency demo_env (\<lambda>k p l q. l < 5)
       \<lparr>url_path = ''api_v1_users'', client_host = Some ''10.0.0.1''\<rparr> (Some alice) demo_state
     = Inr ()
   \<and> rate_limiter_dependency demo_env (\<lambda>k p l q. k = Host ''10.0.0.1'' \<and> l = 10 \<and> q = 3600)
       \<lparr>url_path = ''api_v1_tasks'', client_host = Some ''10.0.0.1''\<rparr> None demo_state
     = Inl (RateLimitException ''Rate limit exceeded.'')"
proof -
  let ?rl = "\<lparr>rl_tier_id = 1, path = ''api_v1_tasks'', limit = 3, period = 60\<rparr>"
  let ?tasks = "\<lparr>url_path = ''api_v1_tasks'', client_host = Some ''10.0.0.1''\<rparr>"
  let ?other = "\<lparr>url_path = ''api_v1_users'', client_host = Some ''10.0.0.1''\<rparr>"
  have t: "crud_tiers_get (tier_id alice) demo_state = Some \<lparr>tier_pk = 1, tier_name = ''free''\<rparr>"
    by (simp add: crud_tiers_get_def demo_state_def empty_state_def alice_def)
  have r: "crud_rate_limits_get (tier_pk \<lparr>tier_pk = 1, tier_name = ''free''\<rparr>)
      (sanitize_path demo_env (url_path ?tasks)) demo_state = Some ?rl"
    by (simp add: crud_rate_limits_get_def demo_state_def empty_state_def demo_env_def)
  have n: "\<not> list_ex (\<lambda>r. Some (rl_tier_id r) = tier_id alice
      \<and> path r = sanitize_path demo_env (url_path ?other)) (rate_limits demo_state)"
    by (simp add: demo_state_def empty_state_def demo_env_def)
  have d: "DEFAULT_LIMIT demo_env = 10" "DEFAULT_PERIOD demo_env = 3600"
    by (simp_all add: demo_env_def)
  have 1: "rate_limiter_dependency demo_env (\<lambda>k p l q. l < 5) ?tasks (Some alice) demo_state
     = Inl (RateLimitException ''Rate limit exceeded.'')"
    using t r rate_limit_resolution [of "Some alice" alice demo_state
        "\<lparr>tier_pk = 1, tier_name = ''free''\<rparr>" demo_env ?tasks ?rl "\<lambda>k p l q. l < 5"]
    by simp
  have 2: "rate_limiter_dependency demo_env (\<lambda>k p l q. l < 5) ?other (Some alice) demo_state
     = Inr ()"
    using n d rate_limit_resolution [of "Some alice" alice demo_state _ demo_env ?other _
        "\<lambda>k p l q. l < 5"]
    by simp
  have 3: "rate_limiter_dependency demo_env
       (\<lambda>k p l q. k = Host ''10.0.0.1'' \<and> l = 10 \<and> q = 3600) ?tasks None demo_state
     = Inl (RateLimitException ''Rate limit exceeded.'')"
    using d rate_limit_resolution [of None _ demo_state _ demo_env ?tasks _
        "\<lambda>k p l q. k = Host ''10.0.0.1'' \<and> l = 10 \<and> q = 3600" "''10.0.0.1''"]
    by simp
  show ?thesis
    using 1 2 3 by simp
qed

section \<open>Refresh and soft-deleted principals\<close>

lemma find_distinct_key:
  "distinct (map k xs) \<Longrightarrow> List.find (\<lambda>x. k x = n) xs = Some u \<Longrightarrow>
   List.find (\<lambda>x. k x = n \<and> P x) xs = (if P u then Some u else None)"
proof (induction xs)
  case Nil
  then show ?case by simp
next
  case (Cons a xs)
  show ?case
  proof (cases "k a = n")
    case True
    with Cons.prems have "u = a" by simp
    moreover from True Cons.prems(1) have "n \<notin> k ` set xs" by simp
    then have "\<forall>x \<in> set xs. k x \<noteq> n" by blast
    then have "List.find (\<lambda>x. k x = n \<and> P x) xs = None"
      by (auto simp: find_None_iff)
    ultimately show ?thesis using True by simp
  next
    case False
    with Cons show ?thesis by simp
  qed
qed

text \<open>
  Claim C10. The refresh operation looks the principal up without the filter on
  \<^verbatim>\<open>is_deleted\<close>. For a soft-deleted, active principal whose refresh token decodes and is
  not on the blacklist, refresh returns a fresh pair: an access token and a refresh token
  that carry the subject, their type, and an expiry of the configured lifetime from now.
  With the usernames of the table distinct, login under that username is refused for
  every password, and so is an access token of the same subject, since both look up with
  \<^verbatim>\<open>is_deleted=False\<close>.
\<close>

theorem refresh_accepts_soft_deleted:
  assumes tok: "tok \<noteq> []" "\<not> crud_token_blacklist_exists tok s"
      "jwt_decode env now tok = Inr p" "sub p = Some n" "token_type p = Some ''refresh''"
    and row: "List.find (\<lambda>u. username u = n) (users s) = Some u" "is_deleted u" "is_active u"
    and uniq: "distinct (map username (users s))" "CHR ''@'' \<notin> set n"
    and acc: "\<not> crud_token_blacklist_exists atok s"
      "jwt_decode env now atok = Inr q" "sub q = Some n" "token_type q = Some ''access''"
  shows "refresh_access_token env now tok s =
           Inr [(''access_token'',
                 jwt_encode env
                   \<lparr>sub = Some n, token_type = Some ''access'',
                    exp = Some (now + ACCESS_TOKEN_EXPIRE_MINUTES env * 60)\<rparr>),
                (''token_type'', ''bearer''),
                (''refresh_token'',
                 jwt_encode env
                   \<lparr>sub = Some n, token_type = Some ''refresh'',
                    exp = Some (now + REFRESH_TOKEN_EXPIRE_DAYS env * 86400)\<rparr>)]
    \<and> login_for_access_token env now n pw s
           = (Inl (UnauthorizedException ''Wrong username, email or password.''), s)
    \<and> get_current_user env now atok s
           = Inl (UnauthorizedException ''User not found or has been deleted.'')"
proof -
  have live: "List.find (\<lambda>u. username u = n \<and> is_deleted u = False) (users s) = None"
    using find_distinct_key [OF uniq(1) row(1), of "\<lambda>u. is_deleted u = False"] row(2)
    by simp
  have v: "verify_token env now tok REFRESH s = Some \<lparr>username_or_email = n\<rparr>"
    using tok by (simp add: verify_token_def)
  have 1: "refresh_access_token env now tok s =
           Inr [(''access_token'',
                 jwt_encode env
                   \<lparr>sub = Some n, token_type = Some ''access'',
                    exp = Some (now + ACCESS_TOKEN_EXPIRE_MINUTES env * 60)\<rparr>),
                (''token_type'', ''bearer''),
                (''refresh_token'',
                 jwt_encode env
                   \<lparr>sub = Some n, token_type = Some ''refresh'',
                    exp = Some (now + REFRESH_TOKEN_EXPIRE_DAYS env * 86400)\<rparr>)]"
    using tok(1) v row
    by (simp add: refresh_access_token_def crud_users_get_def Let_def
        create_access_token_def create_refresh_token_def)
  have 2: "login_for_access_token env now n pw s
           = (Inl (UnauthorizedException ''Wrong username, email or password.''), s)"
    using live uniq(2)
    by (simp add: login_for_access_token_def authenticate_user_def crud_users_get_def)
  have va: "verify_token env now atok ACCESS s = Some \<lparr>username_or_email = n\<rparr>"
    using acc by (simp add: verify_token_def)
  have 3: "get_current_user env now atok s
           = Inl (UnauthorizedException ''User not found or has been deleted.'')"
    using va live uniq(2) by (simp add: get_current_user_def crud_users_get_def)
  show ?thesis
    using 1 2 3 by simp
qed

theorem refresh_accepts_soft_deleted_witness:
  "refresh_access_token demo_env 1000 ''refresh.alice.9000'' deleted_state =
     Inr [(''access_token'', ''access.alice.2800''), (''token_type'', ''bearer''),
          (''refresh_token'', ''refresh.alice.605800'')]
   \<and> verify_token demo_env 1001 ''refresh.alice.605800'' REFRESH deleted_state
       = Some \<lparr>username_or_email = ''alice''\<rparr>
   \<and> fst (login_for_access_token demo_env 1000 ''alice'' ''secret99'' deleted_state)
       = Inl (UnauthorizedException ''Wrong username, email or password.'')
   \<and> get_current_user demo_env 1000 ''access.alice.2000'' deleted_state
       = Inl (UnauthorizedException ''User not found or has been deleted.'')"
proof -
  let ?u = "alice\<lparr>is_deleted := True\<rparr>"
  let ?p = "\<lparr>sub = Some ''alice'', token_type = Some ''refresh'', exp = Some 9000\<rparr>"
  let ?q = "\<lparr>sub = Some ''alice'', token_type = Some ''access'', exp = Some 2000\<rparr>"
  have us: "users deleted_state = [?u]"
    by (simp add: deleted_state_def)
  have bl: "token_blacklist deleted_state = []"
    by (simp add: deleted_state_def demo_state_def empty_state_def)
  have tok: "''refresh.alice.9000'' \<noteq> []"
    "\<not> crud_token_blacklist_exists ''refresh.alice.9000'' deleted_state"
    "jwt_decode demo_env 1000 ''refresh.alice.9000'' = Inr ?p" "sub ?p = Some ''alice''"
    "token_type ?p = Some ''refresh''"
    by (simp_all add: crud_token_blacklist_exists_def bl demo_decode_refresh)
  have row: "List.find (\<lambda>u. username u = ''alice'') (users deleted_state) = Some ?u"
    "is_deleted ?u" "is_active ?u"
    by (simp_all add: us alice_def)
  have uniq: "distinct (map username (users deleted_state))" "CHR ''@'' \<notin> set ''alice''"
    by (simp_all add: us)
  have acc: "\<not> crud_token_blacklist_exists ''access.alice.2000'' deleted_state"
    "jwt_decode demo_env 1000 ''access.alice.2000'' = Inr ?q" "sub ?q = Some ''alice''"
    "token_type ?q = Some ''access''"
    by (simp_all add: crud_token_blacklist_exists_def bl demo_decode_access)
  have enc: "jwt_encode demo_env
               \<lparr>sub = Some ''alice'', token_type = Some ''access'',
                exp = Some (1000 + ACCESS_TOKEN_EXPIRE_MINUTES demo_env * 60)\<rparr>
             = ''access.alice.2800''"
    "jwt_encode demo_env
               \<lparr>sub = Some ''alice'', token_type = Some ''refresh'',
                exp = Some (1000 + REFRESH_TOKEN_EXPIRE_DAYS demo_env * 86400)\<rparr>
             = ''refresh.alice.605800''"
    by (simp_all add: demo_env_def demo_encode_def decimal.simps)
  have fresh: "verify_token demo_env 1001 ''refresh.alice.605800'' REFRESH deleted_state
       = Some \<lparr>username_or_email = ''alice''\<rparr>"
    by (simp add: verify_token_def crud_token_blacklist_exists_def bl demo_env_def
        demo_decode_def demo_issued_def demo_encode_def decimal.simps)
  show ?thesis
    using enc fresh refresh_accepts_soft_deleted [OF tok row uniq acc, of "''secret99''"]
    by simp
qed

end
